theory Spec2Isabelle
  imports Main "HOL-Library.Sublist"
begin

section \<open>JavaScript values\<close>

text \<open>
  The values the program stores and passes around are the values of a JSON file: the
  configuration library serialises the whole store on every write and parses it again on
  every read.  \<open>undefined\<close> is not such a value; a JavaScript expression that may be
  \<open>undefined\<close> has type \<open>jsval\<close>, with \<open>None\<close> for \<open>undefined\<close>.
  Objects are association lists of their own properties in property order; names that
  read as array indices, which JavaScript lists before the others, are kept in the order
  written.  What an object inherits is written out where a property is read under a name
  that comes from outside (\<open>read_member\<close> below).  Numbers are the integers the program
  itself writes (process ids, ports).
\<close>

datatype json =
    JNull
  | JBool bool
  | JNum int
  | JStr string
  | JObj "(string \<times> json) list"

type_synonym jsval = "json option"

text \<open>JavaScript truthiness: \<open>if (v)\<close>, \<open>!v\<close>, \<open>a || b\<close>, \<open>c ? x : y\<close>.\<close>

fun truthy :: "jsval \<Rightarrow> bool" where
  "truthy None = False"
| "truthy (Some JNull) = False"
| "truthy (Some (JBool b)) = b"
| "truthy (Some (JNum n)) = (n \<noteq> 0)"
| "truthy (Some (JStr s)) = (s \<noteq> [])"
| "truthy (Some (JObj kvs)) = True"

definition or_else :: "jsval \<Rightarrow> jsval \<Rightarrow> jsval" where
  "or_else a b = (if truthy a then a else b)"

text \<open>Decimal rendering of a number, as template literals and \<open>String(n)\<close> produce it.\<close>

definition digit_char :: "nat \<Rightarrow> char" where
  "digit_char d = ''0123456789'' ! d"

fun string_of_nat :: "nat \<Rightarrow> string" where
  "string_of_nat n =
     (if n < 10 then [digit_char n] else string_of_nat (n div 10) @ [digit_char (n mod 10)])"

definition string_of_int :: "int \<Rightarrow> string" where
  "string_of_int i = (if i < 0 then CHR ''-'' # string_of_nat (nat (- i)) else string_of_nat (nat i))"

text \<open>String conversion of a value inside a template literal.\<close>

fun to_string :: "jsval \<Rightarrow> string" where
  "to_string None = ''undefined''"
| "to_string (Some JNull) = ''null''"
| "to_string (Some (JBool b)) = (if b then ''true'' else ''false'')"
| "to_string (Some (JNum n)) = string_of_int n"
| "to_string (Some (JStr s)) = s"
| "to_string (Some (JObj kvs)) = ''[object Object]''"

text \<open>
  Assignment \<open>obj[k] = v\<close>: an existing property keeps its position, a new one is added
  last.
\<close>

fun obj_put :: "('k \<times> 'v) list \<Rightarrow> 'k \<Rightarrow> 'v \<Rightarrow> ('k \<times> 'v) list" where
  "obj_put [] k v = [(k, v)]"
| "obj_put ((k', v') # kvs) k v =
     (if k' = k then (k, v) # kvs else (k', v') # obj_put kvs k v)"

text \<open>
  Property read \<open>v.k\<close> under one of the fixed names the program asks for (\<open>url\<close>,
  \<open>secret\<close>, \<open>updatedAt\<close>), on a value that is neither \<open>null\<close> nor \<open>undefined\<close>
  (on those the read throws, which the callers below write out).  No built-in prototype
  carries one of these names, so an object has the property only as its own and a
  primitive does not have it.
\<close>

fun get_prop :: "json \<Rightarrow> string \<Rightarrow> jsval" where
  "get_prop (JObj kvs) k = map_of kvs k"
| "get_prop v k = None"

text \<open>
  The property names that every object inherits from \<open>Object.prototype\<close>.  Their values
  are functions of the runtime (under \<open>__proto__\<close> the prototype object itself): truthy,
  and without a property \<open>url\<close>, \<open>secret\<close> or \<open>updatedAt\<close>.
\<close>

definition object_prototype :: "string list" where
  "object_prototype =
     [''constructor'', ''__defineGetter__'', ''__defineSetter__'', ''hasOwnProperty'',
      ''__lookupGetter__'', ''__lookupSetter__'', ''isPrototypeOf'', ''propertyIsEnumerable'',
      ''toString'', ''valueOf'', ''__proto__'', ''toLocaleString'']"

text \<open>
  What a read \<open>v[k]\<close> finds: nothing (\<open>undefined\<close>), a value, or one of the built-in
  functions and objects of the runtime.
\<close>

datatype member = Absent | Found json | Builtin

text \<open>
  What a table cell or a field of a listing holds: a value, or a built-in function or
  object of the runtime, named by the property under which it was found.
\<close>

datatype shown = Text string | Native string

text \<open>
  Assignment \<open>obj[k] = v\<close> on an object: under the name \<open>__proto__\<close>, unless the object
  has a property of its own with that name, the assignment replaces the prototype and
  the object's own properties stay as they are.
\<close>

definition assign :: "(string \<times> json) list \<Rightarrow> string \<Rightarrow> json \<Rightarrow> (string \<times> json) list" where
  "assign kvs k v =
     (if k = ''__proto__'' \<and> k \<notin> set (map fst kvs) then kvs else obj_put kvs k v)"

section \<open>The process and its environment\<close>

datatype level = Info | Warn | Error | Success

text \<open>An exception value: its \<open>code\<close> and its \<open>message\<close>.\<close>

datatype exn = Exn (exn_code: string) (exn_message: string)

text \<open>
  What one invocation of the CLI does to the outside, in order: a line handed to the
  logger, a text written with \<open>console.log\<close>, a write to the configuration file, a child
  process started with \<open>spawn(command, args, options)\<close> (the environment passed, if one
  is, and the \<open>detached\<close> flag), the server started with
  \<open>startServer(port, secret, workingDir, command)\<close>, and the client's
  \<open>deploy(serverName, serverUrl, secret)\<close>.
\<close>

datatype event =
    Log level string
  | Print string
  | Persist string json
  | Spawn string "string list" "(string \<times> string) list option" bool
  | Serve jsval jsval jsval jsval
  | Trigger string jsval jsval

text \<open>
  An entry of the operating system's process table: what the process is (the detached
  \<open>listen\<close> child that a \<open>start\<close> spawned, or something else) and whose it is (the
  user's own, or of a user whose processes this one may not signal).
\<close>

datatype role = Daemon | Other

datatype owner = Self | Another

datatype proc = Proc (role_of: role) (owner_of: owner)

record world =
  store :: "(string \<times> json) list"
  env :: "(string \<times> string) list"
  procs :: "(int \<times> proc) list"
  os_pids :: "int option list"
  clock :: string
  argv0 :: string
  argv1 :: string
  entry_path :: string
  cwd :: string
  random_token :: string
  read_number :: "string \<Rightarrow> int option"
  methods :: "json \<Rightarrow> string list"
  path_error :: "string \<Rightarrow> exn option"
  trace :: "event list"

text \<open>
  \<open>store\<close> is the content of the configuration file, \<open>env\<close> is \<open>process.env\<close>,
  \<open>procs\<close> the live processes of the host, \<open>os_pids\<close> the answers of the operating
  system to the coming \<open>spawn\<close> calls (the id of the child, or \<open>None\<close> when the child
  cannot be started and \<open>child.pid\<close> is \<open>undefined\<close>), \<open>clock\<close> the current time as
  \<open>toISOString\<close> prints it, \<open>argv0\<close> and \<open>argv1\<close> the first two entries of
  \<open>process.argv\<close>, \<open>entry_path\<close> the resolved path of \<open>server-entry.js\<close>, \<open>cwd\<close>
  what \<open>process.cwd()\<close> returns, and \<open>random_token\<close> what \<open>generateSecureToken()\<close>
  returns.

  Three fields stand for the runtime and the libraries, where their answer depends on
  the version installed or on floating-point arithmetic.  \<open>read_number s\<close> is the 32-bit
  integer that the string \<open>s\<close> equals under \<open>==\<close> (the runtime reads \<open>s\<close> as a number,
  with blanks, signs, exponents and the prefixes \<open>0x\<close>, \<open>0o\<close>, \<open>0b\<close>), or \<open>None\<close> when
  it equals none.  \<open>methods v\<close> are the names of the methods that the primitive value
  \<open>v\<close> (a string, a number, a boolean) has through its wrapper, apart from those of
  every object.  \<open>path_error key\<close> is the error with which the store's path library
  refuses a key that holds a backslash or a bracket (an index that is not closed or not
  a number, in the versions that read indices), or \<open>None\<close> when it reads the key.
\<close>

definition emit :: "event \<Rightarrow> world \<Rightarrow> world" where
  "emit e w = w\<lparr>trace := trace w @ [e]\<rparr>"

definition logger :: "level \<Rightarrow> string \<Rightarrow> world \<Rightarrow> world" where
  "logger l msg w = emit (Log l msg) w"

text \<open>How a command ends: it returns, calls \<open>process.exit(n)\<close>, or dies of an uncaught exception.\<close>

datatype status = Returned | Exited nat | Uncaught exn

fun exit_code :: "status \<Rightarrow> nat" where
  "exit_code Returned = 0"
| "exit_code (Exited n) = n"
| "exit_code (Uncaught e) = 1"

section \<open>The configuration store\<close>

text \<open>
  The store is the \<open>conf\<close> package: \<open>get(key)\<close> and \<open>set(key, value)\<close> on a JSON file,
  where a key with dots is a path through the own properties of nested objects.  A path
  with a segment \<open>__proto__\<close>, \<open>prototype\<close> or \<open>constructor\<close> is not followed: \<open>get\<close>
  answers \<open>undefined\<close> and \<open>set\<close> leaves the content as it is.  \<open>set\<close> refuses
  \<open>undefined\<close> and every key under \<open>__internal__\<close> with a \<open>TypeError\<close>, and both calls
  throw what the path library throws at a key it cannot read.  The message texts are
  abbreviated.

  Two things are left to the path library and not followed further.  Where it reads a
  key with a backslash or a bracket, the escape or the index has its own meaning (an
  index stores into an array, and the program itself writes no array); here such a key
  is split at its dots like any other.  And where a path of \<open>get\<close> leaves the own
  properties of nested objects (a segment after a string, or a name that an object
  inherits), the versions of the library differ; here the answer is \<open>undefined\<close>.
  The program itself asks only for the names of its schema, which are single names.
\<close>

fun split_on :: "char \<Rightarrow> string \<Rightarrow> string list" where
  "split_on c [] = [Nil]"
| "split_on c (x # xs) =
     (if x = c then [] # split_on c xs
      else (case split_on c xs of
              [] \<Rightarrow> [x] # []
            | y # ys \<Rightarrow> (x # y) # ys))"

fun get_path :: "string list \<Rightarrow> (string \<times> json) list \<Rightarrow> jsval" where
  "get_path [] obj = None"
| "get_path [k] obj = map_of obj k"
| "get_path (k # ks) obj =
     (case map_of obj k of
        Some (JObj sub) \<Rightarrow> get_path ks sub
      | _ \<Rightarrow> None)"

fun set_path :: "string list \<Rightarrow> json \<Rightarrow> (string \<times> json) list \<Rightarrow> (string \<times> json) list" where
  "set_path [] v obj = obj"
| "set_path [k] v obj = obj_put obj k v"
| "set_path (k # ks) v obj =
     obj_put obj k
       (JObj (set_path ks v (case map_of obj k of Some (JObj sub) \<Rightarrow> sub | _ \<Rightarrow> [])))"

definition disallowed :: "string list" where
  "disallowed = [''__proto__'', ''prototype'', ''constructor'']"

definition path_of :: "string \<Rightarrow> string list" where
  "path_of key =
     (let segments = split_on CHR ''.'' key
      in if list_ex (\<lambda>s. s \<in> set disallowed) segments then [] else segments)"

definition special :: "string \<Rightarrow> bool" where
  "special key = (CHR 0x5C \<in> set key \<or> CHR 0x5B \<in> set key \<or> CHR 0x5D \<in> set key)"

definition refusal :: "string \<Rightarrow> world \<Rightarrow> exn option" where
  "refusal key w = (if special key then path_error w key else None)"

text \<open>\<open>config.get(key)\<close> for a key that the path library reads.\<close>

definition config_get :: "string \<Rightarrow> world \<Rightarrow> jsval" where
  "config_get key w = get_path (path_of key) (store w)"

definition config_set :: "string \<Rightarrow> jsval \<Rightarrow> world \<Rightarrow> exn + world" where
  "config_set key value w =
     (case value of
        None \<Rightarrow> Inl (Exn ''TypeError'' ''Use `delete()` to clear values'')
      | Some v \<Rightarrow>
          if prefix ''__internal__.'' key
          then Inl (Exn ''TypeError'' ''Please do not use the __internal__ key'')
          else
            (case refusal key w of
               Some e \<Rightarrow> Inl e
             | None \<Rightarrow>
                 Inr (emit (Persist key v) (w\<lparr>store := set_path (path_of key) v (store w)\<rparr>))))"

record schema_entry =
  sc_default :: json
  sc_security :: string
  sc_env :: "string option"
  sc_description :: string

definition CONFIG_SCHEMA :: "(string \<times> schema_entry) list" where
  "CONFIG_SCHEMA =
    [(''server_port'',
        \<lparr>sc_default = JNum 3000, sc_security = ''low'', sc_env = Some ''SERVER_PORT'',
         sc_description = ''Server Port''\<rparr>),
     (''secret_key'',
        \<lparr>sc_default = JNull, sc_security = ''critical'', sc_env = Some ''SECRET_KEY'',
         sc_description = ''Authentication Secret''\<rparr>),
     (''working_dir'',
        \<lparr>sc_default = JNull, sc_security = ''medium'', sc_env = Some ''WORKING_DIR'',
         sc_description = ''Working Directory''\<rparr>),
     (''deployment_command'',
        \<lparr>sc_default = JNull, sc_security = ''high'', sc_env = Some ''DEPLOYMENT_COMMAND'',
         sc_description = ''Deployment Command''\<rparr>),
     (''server_url'',
        \<lparr>sc_default = JNull, sc_security = ''low'', sc_env = Some ''SERVER_URL'',
         sc_description = ''Default Server URL''\<rparr>),
     (''servers'',
        \<lparr>sc_default = JObj [], sc_security = ''medium'', sc_env = None,
         sc_description = ''Server Profiles''\<rparr>),
     (''server_pid'',
        \<lparr>sc_default = JNull, sc_security = ''low'', sc_env = None,
         sc_description = ''Server Process ID''\<rparr>)]"

text \<open>\<open>CONFIG_SCHEMA[key] && CONFIG_SCHEMA[key].env\<close>: the name of the key's environment variable.\<close>

definition schema_env :: "string \<Rightarrow> string option" where
  "schema_env key =
     (case map_of CONFIG_SCHEMA key of
        None \<Rightarrow> None
      | Some sc \<Rightarrow> (case sc_env sc of None \<Rightarrow> None | Some en \<Rightarrow> if en = [] then None else Some en))"

text \<open>\<open>process.env[name]\<close>.\<close>

definition process_env :: "string \<Rightarrow> world \<Rightarrow> jsval" where
  "process_env name w = map_option JStr (map_of (env w) name)"

text \<open>
  \<open>getConfig(key)\<close> for a key that the path library reads; this is every key the program
  itself asks for.  The one call with a key from outside is that of \<open>config get\<close>,
  which writes out the case of a key that is refused.  A name that \<open>CONFIG_SCHEMA\<close> only
  inherits has neither an \<open>env\<close> nor a \<open>default\<close>, so it resolves like a name that is
  not in the schema.
\<close>

definition getConfig :: "string \<Rightarrow> world \<Rightarrow> jsval" where
  "getConfig key w =
     (case (case schema_env key of None \<Rightarrow> None | Some en \<Rightarrow> process_env en w) of
        Some envValue \<Rightarrow> Some envValue
      | None \<Rightarrow>
          (let value = config_get key w in
           case map_of CONFIG_SCHEMA key of
             Some sc \<Rightarrow> (if value = None then Some (sc_default sc) else value)
           | None \<Rightarrow> value))"

text \<open>
  A sequence of writes that an exception may cut short: the exception with the world as
  the writes already made have left it, or the world after all of them.
\<close>

type_synonym attempt = "(exn \<times> world) + world"

definition setConfig :: "string \<Rightarrow> jsval \<Rightarrow> world \<Rightarrow> attempt" where
  "setConfig key value w =
     (case config_set key value w of
        Inl e \<Rightarrow> Inl (e, w)
      | Inr w1 \<Rightarrow>
          (case config_set (''_meta.'' @ key) (Some (JObj [(''updatedAt'', JStr (clock w1))])) w1 of
             Inl e \<Rightarrow> Inl (e, w1)
           | Inr w2 \<Rightarrow> Inr w2))"

section \<open>Mandatory configuration\<close>

definition join :: "string \<Rightarrow> string list \<Rightarrow> string" where
  "join sep xs = (case xs of [] \<Rightarrow> [] | y # ys \<Rightarrow> foldl (\<lambda>acc x. acc @ sep @ x) y ys)"

definition quoted :: "string \<Rightarrow> string" where
  "quoted s = [CHR 0x27] @ s @ [CHR 0x27]"

definition validateMandatoryConfig :: "world \<Rightarrow> string list" where
  "validateMandatoryConfig w =
     (if \<not> truthy (getConfig ''secret_key'' w) then [''secret_key''] else [])
     @ (if \<not> truthy (getConfig ''working_dir'' w) then [''working_dir''] else [])
     @ (if \<not> truthy (getConfig ''deployment_command'' w) then [''deployment_command''] else [])"

definition instruction :: "string \<Rightarrow> string" where
  "instruction param =
     (case schema_env param of
        Some envVar \<Rightarrow>
          ''  - Set '' @ quoted param @ '' using '' @ quoted (''redep config set '' @ param @ '' <value>'')
          @ '' or add '' @ quoted (envVar @ ''=<value>'') @ '' to your .env file''
      | None \<Rightarrow>
          ''  - Set '' @ quoted param @ '' using '' @ quoted (''redep config set '' @ param @ '' <value>''))"

definition getMissingConfigMessage :: "string list \<Rightarrow> string option" where
  "getMissingConfigMessage missingParams =
     (if length missingParams = 0 then None
      else
        (let paramList = join '', '' (map quoted missingParams);
             instructions = join [CHR 0x0A] (map instruction missingParams)
         in Some (''Error: Required configuration parameter(s) '' @ paramList
                  @ '' are not set.'' @ [CHR 0x0A] @ instructions)))"

text \<open>\<open>logger.error(errorMessage)\<close>, where the message may be \<open>null\<close>.\<close>

definition message_text :: "string option \<Rightarrow> string" where
  "message_text m = (case m of None \<Rightarrow> ''null'' | Some s \<Rightarrow> s)"

section \<open>Signals and child processes\<close>

datatype signal = Sig0 | SIGTERM

text \<open>
  \<open>process.kill(pid, sig)\<close> first requires \<open>pid == (pid | 0)\<close>: a number that is a 32-bit
  integer, a string that the runtime reads as such a number, or a boolean; anything else
  is a \<open>TypeError\<close> with code \<open>ERR_INVALID_ARG_TYPE\<close>.  The signal then reaches the
  process with that id: no such process is \<open>ESRCH\<close>, a process of another user
  \<open>EPERM\<close>.  Signal 0 only tests; \<open>SIGTERM\<close> ends the process.  The ids that name a
  group of processes (zero and the negative numbers) are looked up in the table like any
  other.  The message texts of these runtime errors are abbreviated.
\<close>

definition int32 :: "int \<Rightarrow> bool" where
  "int32 n = (- 2147483648 \<le> n \<and> n < 2147483648)"

fun to_pid :: "world \<Rightarrow> jsval \<Rightarrow> int option" where
  "to_pid w None = None"
| "to_pid w (Some JNull) = None"
| "to_pid w (Some (JBool b)) = Some (if b then 1 else 0)"
| "to_pid w (Some (JNum n)) = (if int32 n then Some n else None)"
| "to_pid w (Some (JStr s)) = read_number w s"
| "to_pid w (Some (JObj kvs)) = None"

definition process_kill :: "jsval \<Rightarrow> signal \<Rightarrow> world \<Rightarrow> exn + world" where
  "process_kill pid sig w =
     (case to_pid w pid of
        None \<Rightarrow> Inl (Exn ''ERR_INVALID_ARG_TYPE'' ''The pid argument must be of type number'')
      | Some p \<Rightarrow>
          (case map_of (procs w) p of
             None \<Rightarrow> Inl (Exn ''ESRCH'' ''kill ESRCH'')
           | Some (Proc r Another) \<Rightarrow> Inl (Exn ''EPERM'' ''kill EPERM'')
           | Some (Proc r Self) \<Rightarrow>
               Inr (case sig of
                      Sig0 \<Rightarrow> w
                    | SIGTERM \<Rightarrow> w\<lparr>procs := filter (\<lambda>e. fst e \<noteq> p) (procs w)\<rparr>)))"

text \<open>
  \<open>spawn(command, args, {detached: true, stdio: 'ignore', windowsHide: true})\<close> followed
  by \<open>child.unref()\<close>: the call is made, and the operating system either starts the child
  and gives its id, or does not and \<open>child.pid\<close> is \<open>undefined\<close>.
\<close>

definition spawn_detached :: "string \<Rightarrow> string list \<Rightarrow> world \<Rightarrow> jsval \<times> world" where
  "spawn_detached command args w =
     (let w1 = emit (Spawn command args None True) w in
      case os_pids w of
        [] \<Rightarrow> (None, w1)
      | None # rest \<Rightarrow> (None, w1\<lparr>os_pids := rest\<rparr>)
      | Some p # rest \<Rightarrow> (Some (JNum p), w1\<lparr>os_pids := rest, procs := (p, Proc Daemon Self) # procs w\<rparr>))"

text \<open>What the child started by \<open>spawn('pm2', ...)\<close> emits: \<open>'error'\<close> or \<open>'close'\<close> with a code.\<close>

datatype child_event = ChildError exn | ChildClose "int option"

text \<open>The call \<open>spawn('pm2', ...)\<close> throws, or returns a child that emits events.\<close>

datatype pm2 = SpawnThrows exn | Emits "child_event list"

text \<open>
  Listeners run one event after the other; an exception that leaves a listener, or an
  \<open>'error'\<close> event with no listener, ends the process.
\<close>

fun run_handlers ::
  "(child_event \<Rightarrow> world \<Rightarrow> status \<times> world) \<Rightarrow> child_event list \<Rightarrow> status \<times> world \<Rightarrow> status \<times> world" where
  "run_handlers h [] r = r"
| "run_handlers h (e # es) (st, w) =
     (if st = Returned then run_handlers h es (h e w) else (st, w))"

section \<open>The process supervisor\<close>

text \<open>\<open>options.port\<close> is a string or \<open>undefined\<close>; \<open>if (options.port)\<close> asks for a non-empty one.\<close>

definition port_given :: "string option \<Rightarrow> bool" where
  "port_given port = truthy (map_option JStr port)"

definition port_text :: "string option \<Rightarrow> string" where
  "port_text port = (case port of None \<Rightarrow> [] | Some p \<Rightarrow> p)"

text \<open>\<open>const args = ['listen']; if (options.port) args.push('--port', options.port)\<close>.\<close>

definition listen_args :: "string option \<Rightarrow> string list" where
  "listen_args port = [''listen''] @ (if port_given port then [''--port'', port_text port] else [])"

text \<open>The part of \<open>startNativeBackground\<close> after the check of the recorded id.\<close>

definition spawn_and_persist :: "string option \<Rightarrow> world \<Rightarrow> status \<times> world" where
  "spawn_and_persist port w =
     (let args = listen_args port;
          (pid, w1) = spawn_detached (argv0 w) (argv1 w # args) w
      in case setConfig ''server_pid'' pid w1 of
           Inl (e, w') \<Rightarrow> (Uncaught e, w')
         | Inr w2 \<Rightarrow>
             (Returned,
              logger Success (''Server started in background (native) with PID '' @ to_string pid) w2))"

definition startNativeBackground :: "string option \<Rightarrow> world \<Rightarrow> status \<times> world" where
  "startNativeBackground port w =
     (let existingPid = getConfig ''server_pid'' w in
      if truthy existingPid then
        (case process_kill existingPid Sig0 w of
           Inr w1 \<Rightarrow>
             (Returned,
              logger Warn (''Server is already running with PID '' @ to_string existingPid) w1)
         | Inl e \<Rightarrow>
             (case setConfig ''server_pid'' (Some JNull) w of
                Inl (e', w') \<Rightarrow> (Uncaught e', w')
              | Inr w2 \<Rightarrow> spawn_and_persist port w2))
      else spawn_and_persist port w)"

text \<open>The call \<open>spawn('pm2', args, {stdio: 'inherit', shell: true, env: env})\<close> of \<open>start\<close>.\<close>

definition pm2_start_call :: "string option \<Rightarrow> world \<Rightarrow> event" where
  "pm2_start_call port w =
     Spawn ''pm2'' [''start'', entry_path w, ''--name'', ''redep-server'']
       (Some (if port_given port then obj_put (env w) ''SERVER_PORT'' (port_text port) else env w))
       False"

definition start_on_event :: "string option \<Rightarrow> child_event \<Rightarrow> world \<Rightarrow> status \<times> world" where
  "start_on_event port ev w =
     (case ev of
        ChildError e \<Rightarrow>
          startNativeBackground port
            (logger Info ''PM2 not found, falling back to native background process...'' w)
      | ChildClose code \<Rightarrow>
          if code \<noteq> Some 0 then
            startNativeBackground port
              (logger Warn ''PM2 start failed, falling back to native background process...'' w)
          else (Returned, logger Success ''Server started in background using PM2'' w))"

definition start_action :: "string option \<Rightarrow> pm2 \<Rightarrow> world \<Rightarrow> status \<times> world" where
  "start_action port outcome w =
     (let missingParams = validateMandatoryConfig w in
      if length missingParams > 0 then
        (Exited 1, logger Error (message_text (getMissingConfigMessage missingParams)) w)
      else
        (let w1 = emit (pm2_start_call port w) w in
         case outcome of
           SpawnThrows e \<Rightarrow> startNativeBackground port w1
         | Emits evs \<Rightarrow> run_handlers (start_on_event port) evs (Returned, w1)))"

text \<open>
  \<open>stop\<close> and \<open>status\<close> call \<open>spawn\<close> outside any \<open>try\<close> and listen to \<open>'close'\<close>
  only, so a \<open>spawn\<close> that throws and an \<open>'error'\<close> event of their \<open>pm2\<close> child are
  uncaught exceptions.
\<close>

definition stop_on_event :: "child_event \<Rightarrow> world \<Rightarrow> status \<times> world" where
  "stop_on_event ev w =
     (case ev of
        ChildError e \<Rightarrow> (Uncaught e, w)
      | ChildClose code \<Rightarrow>
          if code = Some 0 then (Returned, logger Success ''Server stopped (PM2)'' w)
          else
            (let pid = getConfig ''server_pid'' w in
             if \<not> truthy pid then (Returned, logger Warn ''No active server found.'' w)
             else
               (let catch = (\<lambda>e w'.
                      if exn_code e = ''ESRCH'' then
                        (let w'' = logger Warn (''Process '' @ to_string pid @ '' not found. Cleaning up config.'') w'
                         in case setConfig ''server_pid'' (Some JNull) w'' of
                              Inl (e', w3) \<Rightarrow> (Uncaught e', w3)
                            | Inr w2 \<Rightarrow> (Returned, w2))
                      else (Returned, logger Error (''Failed to stop server: '' @ exn_message e) w'))
                in case process_kill pid SIGTERM w of
                     Inl e \<Rightarrow> catch e w
                   | Inr w1 \<Rightarrow>
                       (case setConfig ''server_pid'' (Some JNull) w1 of
                          Inl (e, w3) \<Rightarrow> catch e w3
                        | Inr w2 \<Rightarrow>
                            (Returned, logger Success (''Server stopped (PID '' @ to_string pid @ '')'') w2)))))"

definition stop_action :: "pm2 \<Rightarrow> world \<Rightarrow> status \<times> world" where
  "stop_action outcome w =
     (let w0 = emit (Spawn ''pm2'' [''stop'', ''redep-server''] None False) w in
      case outcome of
        SpawnThrows e \<Rightarrow> (Uncaught e, w0)
      | Emits evs \<Rightarrow> run_handlers stop_on_event evs (Returned, w0))"

definition status_on_event :: "child_event \<Rightarrow> world \<Rightarrow> status \<times> world" where
  "status_on_event ev w =
     (case ev of
        ChildError e \<Rightarrow> (Uncaught e, w)
      | ChildClose code \<Rightarrow>
          if code \<noteq> Some 0 then
            (let pid = getConfig ''server_pid'' w in
             if \<not> truthy pid then (Returned, logger Info ''Server is NOT running.'' w)
             else
               (case process_kill pid Sig0 w of
                  Inr w1 \<Rightarrow>
                    (Returned, logger Success (''Server is RUNNING (PID '' @ to_string pid @ '')'') w1)
                | Inl e \<Rightarrow>
                    (let w' = logger Warn (''Server is NOT running (Stale PID '' @ to_string pid @ '' found).'') w
                     in case setConfig ''server_pid'' (Some JNull) w' of
                          Inl (e', w3) \<Rightarrow> (Uncaught e', w3)
                        | Inr w2 \<Rightarrow> (Returned, w2))))
          else (Returned, w))"

definition status_action :: "pm2 \<Rightarrow> world \<Rightarrow> status \<times> world" where
  "status_action outcome w =
     (let w0 = emit (Spawn ''pm2'' [''describe'', ''redep-server''] None False) w in
      case outcome of
        SpawnThrows e \<Rightarrow> (Uncaught e, w0)
      | Emits evs \<Rightarrow> run_handlers status_on_event evs (Returned, w0))"

section \<open>The server and client commands\<close>

text \<open>
  \<open>listen\<close> hands over to \<open>startServer\<close>, and \<open>deploy\<close> to the client's \<open>deploy\<close>;
  both live in modules outside these sources, so the calls are recorded with their
  arguments, and the outcome of the client's promise (resolved, or rejected with an
  error) is a parameter.
\<close>

definition listen_action :: "string option \<Rightarrow> world \<Rightarrow> status \<times> world" where
  "listen_action port w =
     (let missingParams = validateMandatoryConfig w in
      if length missingParams > 0 then
        (Exited 1, logger Error (message_text (getMissingConfigMessage missingParams)) w)
      else
        (let port' = or_else (or_else (or_else (map_option JStr port) (getConfig ''server_port'' w))
                                (process_env ''SERVER_PORT'' w)) (Some (JNum 3000));
             secret = or_else (getConfig ''secret_key'' w) (process_env ''SECRET_KEY'' w);
             workingDir = or_else (getConfig ''working_dir'' w) (process_env ''WORKING_DIR'' w);
             deploymentCommand =
               or_else (getConfig ''deployment_command'' w) (process_env ''DEPLOYMENT_COMMAND'' w)
         in (Returned, emit (Serve port' secret workingDir deploymentCommand) w)))"

text \<open>
  The read \<open>v[k]\<close> under a name \<open>k\<close> that comes from outside, on a value \<open>v\<close> that is
  neither \<open>null\<close> nor \<open>undefined\<close>.  An object has its own properties and those it
  inherits from \<open>Object.prototype\<close>, an own property hiding an inherited one.  A string
  has its length, its characters under their indices, the methods of its wrapper and
  what every object inherits; a number and a boolean have the last two.
\<close>

fun read_member :: "world \<Rightarrow> json \<Rightarrow> string \<Rightarrow> member" where
  "read_member w (JObj kvs) k =
     (case map_of kvs k of
        Some v \<Rightarrow> Found v
      | None \<Rightarrow> if k \<in> set object_prototype then Builtin else Absent)"
| "read_member w (JStr s) k =
     (if k = ''length'' then Found (JNum (int (length s)))
      else
        (case find (\<lambda>i. string_of_nat i = k) [0..<length s] of
           Some i \<Rightarrow> Found (JStr [s ! i])
         | None \<Rightarrow>
             if k \<in> set (methods w (JStr s)) \<or> k \<in> set object_prototype then Builtin else Absent))"
| "read_member w v k =
     (if k \<in> set (methods w v) \<or> k \<in> set object_prototype then Builtin else Absent)"

definition dq :: string where
  "dq = [CHR 0x22]"

text \<open>
  The global settings \<open>deploy\<close> falls back to:
  \<open>getConfig('server_url') || process.env.SERVER_URL\<close> and
  \<open>getConfig('secret_key') || process.env.SECRET_KEY\<close>.
\<close>

definition fallback_url :: "world \<Rightarrow> jsval" where
  "fallback_url w = or_else (getConfig ''server_url'' w) (process_env ''SERVER_URL'' w)"

definition fallback_secret :: "world \<Rightarrow> jsval" where
  "fallback_secret w = or_else (getConfig ''secret_key'' w) (process_env ''SECRET_KEY'' w)"

text \<open>
  The lookup of the profile: \<open>serverUrl\<close> and \<open>secret\<close> as \<open>deploy\<close> resolves them.
  \<open>servers[serverName]\<close> is tested for truth, and a built-in function or object is
  truthy; its \<open>url\<close> and \<open>secret\<close> are \<open>undefined\<close>.
\<close>

definition target :: "string \<Rightarrow> world \<Rightarrow> jsval \<times> jsval" where
  "target serverName w =
     (case or_else (getConfig ''servers'' w) (Some (JObj [])) of
        None \<Rightarrow> (fallback_url w, fallback_secret w)
      | Some servers \<Rightarrow>
          (case read_member w servers serverName of
             Found profile \<Rightarrow>
               if truthy (Some profile)
               then (get_prop profile ''url'', get_prop profile ''secret'')
               else (fallback_url w, fallback_secret w)
           | Builtin \<Rightarrow> (None, None)
           | Absent \<Rightarrow> (fallback_url w, fallback_secret w)))"

definition deploy_action ::
  "(string \<Rightarrow> jsval \<Rightarrow> jsval \<Rightarrow> exn option) \<Rightarrow> string \<Rightarrow> world \<Rightarrow> status \<times> world" where
  "deploy_action deploy serverName w =
     (let (serverUrl, secret) = target serverName w
      in
      if \<not> truthy serverUrl then
        (Exited 1,
         logger Info (''Run '' @ dq @ ''redep init client'' @ dq @ '' to configure a server.'')
           (logger Error
              (''Error: Server '' @ dq @ serverName @ dq @ '' not found in config, and global ''
               @ dq @ ''server_url'' @ dq @ '' is not set.'') w))
      else if \<not> truthy secret then
        (Exited 1,
         logger Error
           (''Error: '' @ dq @ ''secret_key'' @ dq @ '' is not set. Set SECRET_KEY env var or run ''
            @ dq @ ''redep config set secret_key <your-secret>'' @ dq) w)
      else
        (let w1 = emit (Trigger serverName serverUrl secret) w in
         case deploy serverName serverUrl secret of
           None \<Rightarrow> (Returned, w1)
         | Some error \<Rightarrow> (Exited 1, logger Error (''Deploy failed: '' @ exn_message error) w1)))"

section \<open>Initialisation\<close>

text \<open>
  The prompts are \<open>inquirer\<close>'s: the promise is rejected with an error, or resolves to the
  answers by name.  Inside the \<open>try\<close> block every throw keeps the writes already made.
  An assignment to a property of a primitive throws a \<open>TypeError\<close> (the module is in
  strict mode), whose message is abbreviated.
\<close>

definition then_set :: "string \<Rightarrow> jsval \<Rightarrow> attempt \<Rightarrow> attempt" where
  "then_set key value a =
     (case a of
        Inl x \<Rightarrow> Inl x
      | Inr w \<Rightarrow> setConfig key value w)"

text \<open>An object literal as the store keeps it: a property that is \<open>undefined\<close> is dropped.\<close>

definition object_of :: "(string \<times> jsval) list \<Rightarrow> json" where
  "object_of props = JObj (concat (map (\<lambda>(k, v). case v of None \<Rightarrow> [] | Some j \<Rightarrow> [(k, j)]) props))"

definition init_client :: "exn + (string \<times> string) list \<Rightarrow> world \<Rightarrow> attempt" where
  "init_client prompt w =
     (case prompt of
        Inl e \<Rightarrow> Inl (e, w)
      | Inr answers \<Rightarrow>
          (let answer = (\<lambda>name. map_option JStr (map_of answers name));
               servers = or_else (getConfig ''servers'' w) (Some (JObj []))
           in case servers of
                Some (JObj kvs) \<Rightarrow>
                  (case then_set ''servers''
                          (Some (JObj (assign kvs (to_string (answer ''server_name''))
                                        (object_of [(''url'', answer ''server_url''),
                                                    (''secret'', answer ''secret_key'')]))))
                          (Inr w) of
                     Inl x \<Rightarrow> Inl x
                   | Inr w1 \<Rightarrow>
                       Inr (logger Success
                              (''Client configuration for '' @ quoted (to_string (answer ''server_name''))
                               @ '' saved successfully.'') w1))
              | _ \<Rightarrow>
                  Inl (Exn ''TypeError''
                         (''Cannot create property '' @ quoted (to_string (answer ''server_name''))), w)))"

definition init_server :: "exn + (string \<times> string) list \<Rightarrow> world \<Rightarrow> attempt" where
  "init_server prompt w =
     (case prompt of
        Inl e \<Rightarrow> Inl (e, w)
      | Inr answers \<Rightarrow>
          (let answer = (\<lambda>name. map_option JStr (map_of answers name));
               generated = \<not> truthy (answer ''secret_key'');
               secret = (if generated then Some (JStr (random_token w)) else answer ''secret_key'');
               w0 = (if generated then logger Info (''Generated Secret Key: '' @ to_string secret) w else w);
               a1 = then_set ''server_port'' (answer ''server_port'') (Inr w0);
               a2 = then_set ''working_dir'' (answer ''working_dir'') a1;
               a3 = (if truthy (answer ''deployment_command'')
                     then then_set ''deployment_command'' (answer ''deployment_command'') a2
                     else a2);
               a4 = then_set ''secret_key'' secret a3
           in case a4 of
                Inl x \<Rightarrow> Inl x
              | Inr w' \<Rightarrow> Inr (logger Success ''Server configuration saved successfully.'' w')))"

definition init_action :: "string \<Rightarrow> exn + (string \<times> string) list \<Rightarrow> world \<Rightarrow> status \<times> world" where
  "init_action type prompt w =
     (if type \<noteq> ''client'' \<and> type \<noteq> ''server'' then
        (Exited 1,
         logger Error (''Type must be either '' @ dq @ ''client'' @ dq @ '' or '' @ dq @ ''server'' @ dq) w)
      else
        (case (if type = ''client'' then init_client prompt w else init_server prompt w) of
           Inr w' \<Rightarrow> (Returned, w')
         | Inl (error, w') \<Rightarrow>
             (Exited 1, logger Error (''Initialization failed: '' @ exn_message error) w')))"

section \<open>The generate and config commands\<close>

text \<open>
  \<open>generate\<close> catches what \<open>setConfig\<close> throws and only logs it.  \<open>config set\<close> and
  \<open>config get\<close> have no \<open>try\<close>: what the store throws at the key leaves the action.
\<close>

definition generate_secret_key :: "world \<Rightarrow> status \<times> world" where
  "generate_secret_key w =
     (case setConfig ''secret_key'' (Some (JStr (random_token w))) w of
        Inr w' \<Rightarrow> (Returned, logger Success (''Secret Key generated and saved: '' @ random_token w) w')
      | Inl (error, w') \<Rightarrow> (Returned, logger Error (''Generation failed: '' @ exn_message error) w'))"

definition generate_working_dir :: "world \<Rightarrow> status \<times> world" where
  "generate_working_dir w =
     (case setConfig ''working_dir'' (Some (JStr (cwd w))) w of
        Inr w' \<Rightarrow> (Returned, logger Success (''Working Directory set to: '' @ cwd w) w')
      | Inl (error, w') \<Rightarrow>
          (Returned, logger Error (''Failed to set working directory: '' @ exn_message error) w'))"

definition config_set_action :: "string \<Rightarrow> string \<Rightarrow> world \<Rightarrow> status \<times> world" where
  "config_set_action key value w =
     (case setConfig key (Some (JStr value)) w of
        Inr w' \<Rightarrow> (Returned, logger Success (''Configuration updated: '' @ key @ '' = '' @ value) w')
      | Inl (error, w') \<Rightarrow> (Uncaught error, w'))"

definition config_get_action :: "string \<Rightarrow> world \<Rightarrow> status \<times> world" where
  "config_get_action key w =
     (case refusal key w of
        Some error \<Rightarrow> (Uncaught error, w)
      | None \<Rightarrow> (Returned, logger Info (key @ '': '' @ to_string (getConfig key w)) w))"

definition config_clear_action :: "world \<Rightarrow> status \<times> world" where
  "config_clear_action w =
     (Returned, logger Success ''All configurations have been cleared.'' (w\<lparr>store := []\<rparr>))"

section \<open>Listing the client profiles\<close>

record row =
  server :: string
  host :: jsval
  secret_key :: string
  description :: shown
  security :: string

definition lower_char :: "char \<Rightarrow> char" where
  "lower_char c =
     (if 65 \<le> (of_char c :: nat) \<and> (of_char c :: nat) \<le> 90 then char_of (of_char c + 32 :: nat) else c)"

text \<open>
  \<open>toLowerCase\<close> on the ASCII letters, which is all that the names of the table and the
  names an object inherits contain.  The table is an object, so
  \<open>descriptions[name]\<close> also finds what the table inherits: under \<open>constructor\<close> and
  \<open>__proto__\<close> the description is a built-in function or object, which is truthy.
\<close>

definition getServerDescription :: "string \<Rightarrow> shown" where
  "getServerDescription serverName =
     (case map_of
             [(''prod'', ''Production environment with high security''),
              (''staging'', ''Staging environment for testing''),
              (''uat'', ''User Acceptance Testing environment''),
              (''dev'', ''Development environment''),
              (''test'', ''Testing environment'')]
             (map lower_char serverName) of
        Some d \<Rightarrow> Text d
      | None \<Rightarrow>
          if map lower_char serverName \<in> set object_prototype
          then Native (map lower_char serverName)
          else Text ''Custom environment'')"

text \<open>\<open>host.startsWith\<close> exists on a string only; on another truthy value the call throws.\<close>

definition getServerSecurityLevel :: "jsval \<Rightarrow> exn + string" where
  "getServerSecurityLevel h =
     (if \<not> truthy h then Inr ''unknown''
      else
        (case h of
           Some (JStr s) \<Rightarrow>
             Inr (if prefix ''https://'' s then ''high''
                  else if prefix ''http://localhost'' s \<or> prefix ''http://127.0.0.1'' s then ''low''
                  else if prefix ''http://'' s then ''medium''
                  else ''unknown'')
         | _ \<Rightarrow> Inl (Exn ''TypeError'' ''host.startsWith is not a function'')))"

text \<open>
  \<open>Object.keys(servers)\<close> with \<open>servers[serverName]\<close>: the properties of an object, the
  characters of a string under their indices, nothing for a number or a boolean.
\<close>

fun entries :: "json \<Rightarrow> (string \<times> json) list" where
  "entries (JObj kvs) = kvs"
| "entries (JStr s) = map (\<lambda>i. (string_of_nat i, JStr [s ! i])) [0..<length s]"
| "entries v = []"

definition client_row :: "string \<Rightarrow> json \<Rightarrow> exn + row" where
  "client_row serverName srv =
     (if srv = JNull then Inl (Exn ''TypeError'' ''Cannot read properties of null'')
      else
        (case getServerSecurityLevel (get_prop srv ''url'') of
           Inl e \<Rightarrow> Inl e
         | Inr level \<Rightarrow>
             Inr \<lparr>server = serverName,
                  host = or_else (get_prop srv ''url'') (Some (JStr ''Not configured'')),
                  secret_key = (if truthy (get_prop srv ''secret'') then ''********'' else ''Not set''),
                  description = getServerDescription serverName,
                  security = level\<rparr>))"

fun client_rows :: "(string \<times> json) list \<Rightarrow> row list \<Rightarrow> exn + row list" where
  "client_rows [] result = Inr result"
| "client_rows ((serverName, srv) # rest) result =
     (case client_row serverName srv of
        Inl e \<Rightarrow> Inl e
      | Inr r \<Rightarrow> client_rows rest (result @ [r]))"

definition getClientConfig :: "world \<Rightarrow> exn + row list" where
  "getClientConfig w =
     (case or_else (config_get ''servers'' w) (Some (JObj [])) of
        None \<Rightarrow> Inr []
      | Some servers \<Rightarrow> client_rows (entries servers) [])"

section \<open>Listing the configuration\<close>

text \<open>An entry of \<open>getDetailedConfig\<close>; \<open>defaultValue\<close> is \<open>undefined\<close> for a key outside the schema.\<close>

record item =
  it_key :: string
  it_value :: json
  it_default :: jsval
  it_source :: string
  it_security :: string
  it_updated :: json
  it_description :: string

text \<open>
  \<open>meta[key]?.updatedAt || 'N/A'\<close>, where \<open>meta\<close> is \<open>all._meta || {}\<close>.  The keys asked
  for are those of the schema and the own keys of the store that \<open>CONFIG_SCHEMA\<close> does
  not have, not even by inheritance, so an object \<open>meta\<close> is read for its own
  properties; whatever a primitive \<open>meta\<close> has under the key has no \<open>updatedAt\<close>.
\<close>

definition updated_at :: "world \<Rightarrow> string \<Rightarrow> json" where
  "updated_at w key =
     (let found =
            (case or_else (map_of (store w) ''_meta'') (Some (JObj [])) of
               Some (JObj meta) \<Rightarrow>
                 (case map_of meta key of Some entry \<Rightarrow> get_prop entry ''updatedAt'' | None \<Rightarrow> None)
             | _ \<Rightarrow> None)
      in case or_else found (Some (JStr ''N/A'')) of Some u \<Rightarrow> u | None \<Rightarrow> JStr ''N/A'')"

definition schema_item :: "world \<Rightarrow> string \<times> schema_entry \<Rightarrow> item" where
  "schema_item w e =
     (let key = fst e; schema = snd e;
          fileValue = config_get key w;
          envValue = (case sc_env schema of
                        None \<Rightarrow> None
                      | Some en \<Rightarrow> if en = [] then None else process_env en w);
          current = (case envValue of
                       Some v \<Rightarrow> (v, ''Environment'')
                     | None \<Rightarrow>
                         (case fileValue of
                            Some v \<Rightarrow> (v, ''File'')
                          | None \<Rightarrow> (sc_default schema, ''Default'')))
      in \<lparr>it_key = key, it_value = fst current, it_default = Some (sc_default schema),
          it_source = snd current, it_security = sc_security schema,
          it_updated = updated_at w key, it_description = sc_description schema\<rparr>)"

definition custom_item :: "world \<Rightarrow> string \<times> json \<Rightarrow> item" where
  "custom_item w e =
     \<lparr>it_key = fst e, it_value = snd e, it_default = None, it_source = ''File'',
      it_security = ''unknown'', it_updated = updated_at w (fst e),
      it_description = ''Custom Configuration''\<rparr>"

text \<open>
  \<open>!CONFIG_SCHEMA[key]\<close> holds for a name that the schema neither has nor inherits.
\<close>

definition getDetailedConfig :: "world \<Rightarrow> item list" where
  "getDetailedConfig w =
     map (schema_item w) CONFIG_SCHEMA
     @ map (custom_item w)
         (filter (\<lambda>e. map_of CONFIG_SCHEMA (fst e) = None \<and> fst e \<notin> set object_prototype
                        \<and> fst e \<noteq> ''_meta'')
            (store w))"

definition getServerConfig :: "world \<Rightarrow> item list" where
  "getServerConfig w =
     filter (\<lambda>it. it_key it \<in> set [''server_port'', ''secret_key'', ''working_dir'',
                                        ''deployment_command'', ''server_pid''])
       (getDetailedConfig w)"

text \<open>
  What \<open>config list\<close> prints with is not part of the program: \<open>JSON.stringify\<close> on a
  stored value and on the listings, the table of \<open>cli-table3\<close> (its text for a head, the
  column widths and the rows, or what its rendering throws), the colours of \<open>chalk\<close>,
  \<open>new Date(v).toLocaleString()\<close>, \<open>Array.prototype.sort\<close> with a comparison function
  that may throw, and \<open>localeCompare\<close>.  They are parameters of the command.
\<close>

record presentation =
  pr_stringify :: "json \<Rightarrow> string"
  pr_rows :: "row list \<Rightarrow> string"
  pr_items :: "item list \<Rightarrow> string"
  pr_table :: "string list \<Rightarrow> nat list \<Rightarrow> shown list list \<Rightarrow> exn + string"
  pr_paint :: "string \<Rightarrow> string \<Rightarrow> string"
  pr_date :: "json \<Rightarrow> string"
  pr_sort :: "(item \<Rightarrow> item \<Rightarrow> exn + int) \<Rightarrow> item list \<Rightarrow> exn + item list"
  pr_compare :: "string \<Rightarrow> string \<Rightarrow> int"

definition console_log :: "string \<Rightarrow> world \<Rightarrow> world" where
  "console_log text w = emit (Print text) w"

text \<open>A row of the table of client profiles, coloured by its security level.\<close>

definition client_cells :: "presentation \<Rightarrow> row \<Rightarrow> shown list" where
  "client_cells pr item =
     (let tint = (\<lambda>s. if security item = ''high'' then pr_paint pr ''green'' s
                       else if security item = ''medium'' then pr_paint pr ''yellow'' s
                       else if security item = ''low'' then pr_paint pr ''cyan'' s
                       else s)
      in [Text (tint (server item)), Text (to_string (host item)), Text (secret_key item),
          description item, Text (tint (security item))])"

text \<open>
  A row of the table of settings.  \<open>typeof v === 'object'\<close> holds for an object and for
  \<open>null\<close>; \<open>item.isModified\<close> is never set.
\<close>

definition is_object :: "jsval \<Rightarrow> bool" where
  "is_object v = (case v of Some (JObj kvs) \<Rightarrow> True | Some JNull \<Rightarrow> True | _ \<Rightarrow> False)"

definition item_cells :: "presentation \<Rightarrow> item \<Rightarrow> shown list" where
  "item_cells pr item =
     (let value = (if is_object (Some (it_value item)) then pr_stringify pr (it_value item)
                   else to_string (or_else (Some (it_value item)) (Some (JStr []))));
          def = (case it_default item of
                   None \<Rightarrow> ''-''
                 | Some d \<Rightarrow> if is_object (Some d) then pr_stringify pr d else to_string (Some d));
          updated = (if it_updated item = JStr ''N/A'' then ''-'' else pr_date pr (it_updated item));
          sec = (if it_security item = [] then ''unknown'' else it_security item);
          env = (it_source item = ''Environment'');
          source = (if env then pr_paint pr ''cyan'' (it_source item) else it_source item);
          key = (if env then pr_paint pr ''cyan'' (it_key item) else it_key item);
          high = (it_security item \<in> set [''critical'', ''high'']);
          sec' = (if high then pr_paint pr ''red'' sec else sec);
          value' = (if high \<and> it_security item = ''critical'' then ''********'' else value)
      in [Text key, Text value', Text def, Text source, Text updated, Text sec'])"

text \<open>
  The comparison function of \<open>--sort\<close>.  \<open>localeCompare\<close> is a method of strings: on
  another value of \<open>updatedAt\<close> the call throws.  \<open>levels[s] || 4\<close> puts \<open>critical\<close>,
  whose level is 0, with \<open>unknown\<close>; under a name that \<open>levels\<close> inherits it is no
  number, the difference is \<open>NaN\<close>, and \<open>sort\<close> reads \<open>NaN\<close> as 0.
\<close>

definition level_of :: "string \<Rightarrow> int option" where
  "level_of s =
     (case map_of [(''critical'', 0), (''high'', 1), (''medium'', 2), (''low'', 3), (''unknown'', 4)] s of
        Some n \<Rightarrow> Some (if n = 0 then 4 else n)
      | None \<Rightarrow> if s \<in> set object_prototype then None else Some 4)"

definition compare_items :: "presentation \<Rightarrow> string \<Rightarrow> item \<Rightarrow> item \<Rightarrow> exn + int" where
  "compare_items pr sortBy a b =
     (if sortBy = ''key'' then Inr (pr_compare pr (it_key a) (it_key b))
      else if sortBy = ''modified'' then
        (case or_else (Some (it_updated b)) (Some (JStr [])) of
           Some (JStr s) \<Rightarrow>
             Inr (pr_compare pr s (to_string (or_else (Some (it_updated a)) (Some (JStr [])))))
         | _ \<Rightarrow> Inl (Exn ''TypeError'' ''localeCompare is not a function''))
      else if sortBy = ''source'' then Inr (pr_compare pr (it_source a) (it_source b))
      else if sortBy = ''security'' then
        (case (level_of (it_security a), level_of (it_security b)) of
           (Some m, Some n) \<Rightarrow> Inr (m - n)
         | _ \<Rightarrow> Inr 0)
      else Inr 0)"

definition list_client :: "presentation \<Rightarrow> bool \<Rightarrow> world \<Rightarrow> status \<times> world" where
  "list_client pr json w =
     (case getClientConfig w of
        Inl e \<Rightarrow> (Uncaught e, w)
      | Inr clientConfig \<Rightarrow>
          if json then (Returned, console_log (pr_rows pr clientConfig) w)
          else if length clientConfig = 0 then
            (Returned,
             logger Warn
               (''No client servers configured. Use '' @ dq @ ''redep init client'' @ dq
                @ '' to add servers.'') w)
          else
            (let w1 = logger Info ''Client Server Configurations:'' w
             in case pr_table pr [''Server'', ''Host'', ''Secret Key'', ''Description'', ''Security'']
                       [15, 35, 15, 30, 12] (map (client_cells pr) clientConfig) of
                  Inl e \<Rightarrow> (Uncaught e, w1)
                | Inr text \<Rightarrow> (Returned, console_log text w1)))"

definition list_server :: "presentation \<Rightarrow> bool \<Rightarrow> world \<Rightarrow> status \<times> world" where
  "list_server pr json w =
     (let serverConfig = getServerConfig w
      in if json then (Returned, console_log (pr_items pr serverConfig) w)
         else
           (let w1 = logger Info ''Server Configuration:'' w
            in case pr_table pr [''Key'', ''Value'', ''Default'', ''Source'', ''Updated'', ''Security'']
                      [20, 30, 15, 15, 25, 10] (map (item_cells pr) serverConfig) of
                 Inl e \<Rightarrow> (Uncaught e, w1)
               | Inr text \<Rightarrow> (Returned, console_log text w1)))"

definition summary :: "presentation \<Rightarrow> item list \<Rightarrow> string" where
  "summary pr detailed =
     ''Total: '' @ string_of_nat (length detailed)
     @ '' | Modified: '' @ pr_paint pr ''yellow'' (string_of_nat 0)
     @ '' | Env Overrides: ''
     @ pr_paint pr ''cyan''
         (string_of_nat (length (filter (\<lambda>it. it_source it = ''Environment'') detailed)))
     @ '' | Security Critical: ''
     @ pr_paint pr ''red''
         (string_of_nat
            (length (filter (\<lambda>it. it_security it \<in> set [''critical'', ''high'']) detailed)))"

definition legend :: "presentation \<Rightarrow> string" where
  "legend pr =
     pr_paint pr ''cyan'' ''Cyan'' @ '': Environment Override | ''
     @ pr_paint pr ''yellow'' ''Yellow'' @ '': Modified/File | ''
     @ pr_paint pr ''red'' ''Red'' @ '': High Security''"

definition list_all_settings :: "presentation \<Rightarrow> bool \<Rightarrow> string \<Rightarrow> world \<Rightarrow> status \<times> world" where
  "list_all_settings pr json sortBy w =
     (case pr_sort pr (compare_items pr sortBy) (getDetailedConfig w) of
        Inl e \<Rightarrow> (Uncaught e, w)
      | Inr detailed \<Rightarrow>
          if json then (Returned, console_log (pr_items pr detailed) w)
          else
            (let w1 = logger Info ''Current Configuration:'' w
             in case pr_table pr [''Key'', ''Value'', ''Default'', ''Source'', ''Updated'', ''Sec'']
                       [20, 30, 15, 15, 25, 10] (map (item_cells pr) detailed) of
                  Inl e \<Rightarrow> (Uncaught e, w1)
                | Inr text \<Rightarrow>
                    (Returned,
                     console_log (legend pr)
                       (console_log (CHR 0x0A # ''Legend:'')
                          (console_log (summary pr detailed)
                             (console_log (CHR 0x0A # ''Summary Statistics:'')
                                (console_log text w1)))))))"

text \<open>\<open>config list [type]\<close> with its options \<open>--json\<close> and \<open>--sort\<close> (\<open>key\<close> if none is given).\<close>

definition config_list_action ::
  "presentation \<Rightarrow> string option \<Rightarrow> bool \<Rightarrow> string \<Rightarrow> world \<Rightarrow> status \<times> world" where
  "config_list_action pr type json sortBy w =
     (if type = Some ''client'' then list_client pr json w
      else if type = Some ''server'' then list_server pr json w
      else list_all_settings pr json sortBy w)"

section \<open>The server's handling of a trigger\<close>














section \<open>Notions used in the statements\<close>

text \<open>A key that is a single name, read alike by every version of the path library.\<close>

definition plain_key :: "string \<Rightarrow> bool" where
  "plain_key key = (CHR ''.'' \<notin> set key \<and> \<not> special key \<and> key \<notin> set disallowed)"

text \<open>
  The world after \<open>setConfig(key, value)\<close> for a key without dots: the value under the
  key, the time of the write under \<open>_meta\<close>, and the two writes in the trace.
\<close>

definition stamp :: "world \<Rightarrow> json" where
  "stamp w = JObj [(''updatedAt'', JStr (clock w))]"

definition recorded :: "string \<Rightarrow> json \<Rightarrow> world \<Rightarrow> world" where
  "recorded key v w =
     w\<lparr>store := set_path [''_meta'', key] (stamp w) (set_path [key] v (store w)),
       trace := trace w @ [Persist key v, Persist (''_meta.'' @ key) (stamp w)]\<rparr>"

text \<open>The three settings without which the server does not start.\<close>

definition mandatory :: "string list" where
  "mandatory = [''secret_key'', ''working_dir'', ''deployment_command'']"

text \<open>What an action added to the trace.\<close>

definition added :: "world \<Rightarrow> world \<Rightarrow> event list" where
  "added w w' = drop (length (trace w)) (trace w')"

text \<open>The ids of the live self-managed servers.\<close>

definition daemons :: "world \<Rightarrow> int list" where
  "daemons w = map fst (filter (\<lambda>e. role_of (snd e) = Daemon) (procs w))"

text \<open>The liveness probe \<open>process.kill(pid, 0)\<close> returns instead of throwing.\<close>

definition probe_succeeds :: "jsval \<Rightarrow> world \<Rightarrow> bool" where
  "probe_succeeds pid w = (case process_kill pid Sig0 w of Inl e \<Rightarrow> False | Inr w' \<Rightarrow> True)"

text \<open>
  The probe throws \<open>EPERM\<close>: a process has the id, and it is alive, but the user may not
  signal it.
\<close>

definition probe_refused :: "jsval \<Rightarrow> world \<Rightarrow> bool" where
  "probe_refused pid w =
     (case process_kill pid Sig0 w of Inl e \<Rightarrow> exn_code e = ''EPERM'' | Inr w' \<Rightarrow> False)"

text \<open>
  The probe throws anything else: no process has the id (\<open>ESRCH\<close>), or the recorded
  value is no process id at all.
\<close>

definition no_such_process :: "jsval \<Rightarrow> world \<Rightarrow> bool" where
  "no_such_process pid w =
     (case process_kill pid Sig0 w of Inl e \<Rightarrow> exn_code e \<noteq> ''EPERM'' | Inr w' \<Rightarrow> False)"


text \<open>
  Every live self-managed server is the process recorded under \<open>server_pid\<close>, and no
  two entries of the process table share an id.
\<close>

definition tracked :: "world \<Rightarrow> bool" where
  "tracked w =
     (distinct (map fst (procs w))
      \<and> list_all (\<lambda>p. getConfig ''server_pid'' w = Some (JNum p) \<and> p \<noteq> 0 \<and> int32 p) (daemons w))"


text \<open>
  A host on which nothing is configured and no server runs, for the examples.  Its
  runtime reads a string of decimal digits as a number and nothing else, and knows no
  method of a primitive and no key that the path library refuses; the examples record
  process ids as numbers, keep their profiles in objects and use keys of letters.
\<close>

fun nat_of_digits :: "string \<Rightarrow> nat \<Rightarrow> nat option" where
  "nat_of_digits [] acc = Some acc"
| "nat_of_digits (c # cs) acc =
     (if 48 \<le> (of_char c :: nat) \<and> (of_char c :: nat) \<le> 57
      then nat_of_digits cs (10 * acc + (of_char c - 48))
      else None)"

definition decimal :: "string \<Rightarrow> int option" where
  "decimal s =
     (case nat_of_digits s 0 of
        None \<Rightarrow> None
      | Some n \<Rightarrow> if int32 (int n) then Some (int n) else None)"

definition bare :: world where
  "bare =
     \<lparr>store = [], env = [], procs = [(1, Proc Other Another), (412, Proc Other Self)],
      os_pids = [Some 4242],
      clock = ''2026-01-22T14:28:14.000Z'', argv0 = ''/usr/bin/node'',
      argv1 = ''/usr/lib/node_modules/redep/bin/index.js'',
      entry_path = ''/usr/lib/node_modules/redep/server-entry.js'', cwd = ''/srv/app'',
      random_token = ''Zm9vYmFyYmF6cXV4Zm9vYmFyYmF6cXV4'',
      read_number = decimal, methods = (\<lambda>v. []), path_error = (\<lambda>key. None), trace = []\<rparr>"

text \<open>The same host with the three mandatory settings stored.\<close>

definition configured :: world where
  "configured =
     bare\<lparr>store := [(''secret_key'', JStr ''s3cret''), (''working_dir'', JStr ''/srv/app''),
                     (''deployment_command'', JStr ''docker compose up -d'')]\<rparr>"

text \<open>The configured host with a self-managed server running and recorded.\<close>

definition running :: world where
  "running =
     configured\<lparr>store := store configured @ [(''server_pid'', JNum 4242)],
                 procs := (4242, Proc Daemon Self) # procs configured, os_pids := [Some 4243]\<rparr>"

text \<open>The configured host with a recorded id that no process has.\<close>

definition stale :: world where
  "stale = configured\<lparr>store := store configured @ [(''server_pid'', JNum 999)]\<rparr>"

text \<open>A stale record beside a live self-managed server that the record does not name.\<close>

definition orphaned :: world where
  "orphaned =
     configured\<lparr>store := store configured @ [(''server_pid'', JNum 999)],
                 procs := (500, Proc Daemon Self) # procs configured, os_pids := [Some 501]\<rparr>"

text \<open>
  The configured host with a self-managed server of another user running and recorded:
  the probe of its id answers \<open>EPERM\<close>.
\<close>

definition guarded :: world where
  "guarded =
     configured\<lparr>store := store configured @ [(''server_pid'', JNum 4242)],
                 procs := (4242, Proc Daemon Another) # procs configured, os_pids := [Some 4243]\<rparr>"

text \<open>The \<open>pm2\<close> child of \<open>start\<close> reported an error or closed with a code other than 0.\<close>

definition failure :: "child_event \<Rightarrow> bool" where
  "failure ev = (case ev of ChildError e \<Rightarrow> True | ChildClose code \<Rightarrow> code \<noteq> Some 0)"

text \<open>One of the two lines with which \<open>start\<close> announces the native path is in a trace.\<close>

definition fell_back :: "event list \<Rightarrow> bool" where
  "fell_back t =
     (Log Info ''PM2 not found, falling back to native background process...'' \<in> set t
      \<or> Log Warn ''PM2 start failed, falling back to native background process...'' \<in> set t)"

text \<open>An event that is neither an error line nor one of those two lines.\<close>

fun quiet :: "event \<Rightarrow> bool" where
  "quiet (Log l m) =
     (l \<noteq> Error
      \<and> m \<noteq> ''PM2 not found, falling back to native background process...''
      \<and> m \<noteq> ''PM2 start failed, falling back to native background process...'')"
| "quiet ev = True"

text \<open>
  An event that only \<open>startNativeBackground\<close> leaves: the spawn of a detached child, or
  the warning that a server is already running.
\<close>

fun native_mark :: "event \<Rightarrow> bool" where
  "native_mark (Spawn command args e detached) = detached"
| "native_mark (Log l m) = (l = Warn \<and> prefix ''Server is already running with PID '' m)"
| "native_mark ev = False"

definition went_native :: "event list \<Rightarrow> bool" where
  "went_native t = list_ex native_mark t"

text \<open>
  The attempt with \<open>pm2\<close> failed: the \<open>spawn\<close> call threw, or an event of the child is a
  failure.
\<close>

definition pm2_failed :: "pm2 \<Rightarrow> bool" where
  "pm2_failed outcome =
     (case outcome of SpawnThrows e \<Rightarrow> True | Emits evs \<Rightarrow> list_ex failure evs)"

text \<open>The child of \<open>pm2\<close> itself reported a failure.\<close>

definition child_failed :: "pm2 \<Rightarrow> bool" where
  "child_failed outcome =
     (case outcome of SpawnThrows e \<Rightarrow> False | Emits evs \<Rightarrow> list_ex failure evs)"

text \<open>The name is no key of the stored \<open>servers\<close> object.\<close>

definition unknown_profile :: "string \<Rightarrow> world \<Rightarrow> bool" where
  "unknown_profile serverName w =
     (case getConfig ''servers'' w of
        Some (JObj kvs) \<Rightarrow> serverName \<notin> set (map fst kvs)
      | _ \<Rightarrow> True)"

text \<open>The configured host with the address of a server in the environment.\<close>

definition remote :: world where
  "remote = configured\<lparr>env := [(''SERVER_URL'', ''http://10.0.0.5:3000'')]\<rparr>"

text \<open>What the listing shows in place of a profile's secret.\<close>

definition masked :: "json \<Rightarrow> string" where
  "masked srv = (if truthy (get_prop srv ''secret'') then ''********'' else ''Not set'')"

text \<open>The profiles the listing runs over.\<close>

definition profiles :: "world \<Rightarrow> (string \<times> json) list" where
  "profiles w =
     (case or_else (config_get ''servers'' w) (Some (JObj [])) of
        None \<Rightarrow> []
      | Some servers \<Rightarrow> entries servers)"

text \<open>The second profile is the first with another string as its secret.\<close>

fun secret_swapped :: "json \<Rightarrow> json \<Rightarrow> bool" where
  "secret_swapped (JObj a) (JObj b) =
     (case (map_of a ''secret'', map_of b ''secret'') of
        (Some (JStr s), Some (JStr s')) \<Rightarrow> b = obj_put a ''secret'' (JStr s')
      | _ \<Rightarrow> False)"
| "secret_swapped p p' = False"

text \<open>Two profile maps with the same names in the same order that differ in secret strings only.\<close>

definition differ_in_secrets_only :: "(string \<times> json) list \<Rightarrow> (string \<times> json) list \<Rightarrow> bool" where
  "differ_in_secrets_only kvs kvs' =
     list_all2 (\<lambda>e e'. fst e = fst e' \<and> (snd e = snd e' \<or> secret_swapped (snd e) (snd e'))) kvs kvs'"

text \<open>In both maps the same profiles have a secret set.\<close>

definition same_secrets_set :: "(string \<times> json) list \<Rightarrow> (string \<times> json) list \<Rightarrow> bool" where
  "same_secrets_set kvs kvs' =
     list_all2 (\<lambda>e e'. truthy (get_prop (snd e) ''secret'') = truthy (get_prop (snd e') ''secret'')) kvs kvs'"

text \<open>A client whose only profile has the empty string as its secret, and one with a secret.\<close>

definition dev_profile :: "string \<Rightarrow> (string \<times> json) list" where
  "dev_profile s = [(''dev'', JObj [(''url'', JStr ''http://localhost:3000''), (''secret'', JStr s)])]"

definition client_of :: "(string \<times> json) list \<Rightarrow> world" where
  "client_of kvs = bare\<lparr>store := [(''servers'', JObj kvs)]\<rparr>"

text \<open>
  The store takes the key of a \<open>config set\<close>: it is not under \<open>__internal__\<close>, and the
  path library reads it, alone and behind \<open>_meta.\<close>.
\<close>

definition accepted :: "string \<Rightarrow> world \<Rightarrow> bool" where
  "accepted key w =
     (\<not> prefix ''__internal__.'' key \<and> refusal key w = None
      \<and> refusal (''_meta.'' @ key) w = None)"

text \<open>
  The bare host with a path library that reads indices and refuses an index that is not
  closed.
\<close>

definition indexed :: world where
  "indexed =
     bare\<lparr>path_error :=
            (\<lambda>key. if CHR 0x5B \<in> set key \<and> CHR 0x5D \<notin> set key
                   then Some (Exn ''Error'' ''Index was not closed'') else None)\<rparr>"

text \<open>A terminal without colours that prints names only, for the examples.\<close>

definition plain :: presentation where
  "plain =
     \<lparr>pr_stringify = (\<lambda>v. to_string (Some v)),
      pr_rows = (\<lambda>rows. join '', '' (map server rows)),
      pr_items = (\<lambda>items. join '', '' (map it_key items)),
      pr_table = (\<lambda>head widths rows. Inr (join '' | '' head)),
      pr_paint = (\<lambda>colour s. s),
      pr_date = (\<lambda>v. to_string (Some v)),
      pr_sort = (\<lambda>cmp items. Inr items),
      pr_compare = (\<lambda>a b. 0)\<rparr>"

section \<open>Facts about the store\<close>

lemma store_emit [simp]: "store (emit e w) = store w"
  by (simp add: emit_def)

lemma env_emit [simp]: "env (emit e w) = env w"
  by (simp add: emit_def)

lemma procs_emit [simp]: "procs (emit e w) = procs w"
  by (simp add: emit_def)

lemma os_pids_emit [simp]: "os_pids (emit e w) = os_pids w"
  by (simp add: emit_def)

lemma trace_emit [simp]: "trace (emit e w) = trace w @ [e]"
  by (simp add: emit_def)

lemma map_of_obj_put: "map_of (obj_put kvs k v) k' = (if k' = k then Some v else map_of kvs k')"
  by (induction kvs) auto

lemma split_on_plain: "c \<notin> set s \<Longrightarrow> split_on c s = [s]"
  by (induction s) auto

lemma split_meta: "CHR ''.'' \<notin> set key \<Longrightarrow> split_on CHR ''.'' (''_meta.'' @ key) = [''_meta'', key]"
  by (simp add: split_on_plain)

lemma path_of_plain:
  assumes "plain_key key"
  shows "path_of key = [key]"
proof -
  have "split_on CHR ''.'' key = [key]"
    using assms by (simp add: plain_key_def split_on_plain)
  then show ?thesis
    using assms by (simp add: path_of_def plain_key_def)
qed

lemma path_of_meta:
  assumes "plain_key key"
  shows "path_of (''_meta.'' @ key) = [''_meta'', key]"
proof -
  have "split_on CHR ''.'' (''_meta.'' @ key) = [''_meta'', key]"
    using assms by (intro split_meta) (simp add: plain_key_def)
  then show ?thesis
    unfolding path_of_def Let_def using assms by (simp add: plain_key_def disallowed_def)
qed

lemma plain_not_reserved:
  "plain_key key \<Longrightarrow> \<not> prefix ''__internal__.'' key \<and> \<not> prefix ''__internal__.'' (''_meta.'' @ key)"
  by (auto simp: plain_key_def prefix_def)

lemma plain_not_refused:
  "plain_key key \<Longrightarrow> refusal key w = None \<and> refusal (''_meta.'' @ key) w = None"
  by (simp add: plain_key_def refusal_def special_def)

lemma setConfig_plain:
  assumes "plain_key key"
  shows "setConfig key (Some v) w = Inr (recorded key v w)"
proof -
  have "config_set key (Some v) w = Inr (emit (Persist key v) (w\<lparr>store := set_path [key] v (store w)\<rparr>))"
    using plain_not_reserved [OF assms] plain_not_refused [OF assms, of w]
    by (simp add: config_set_def path_of_plain [OF assms])
  moreover have "config_set (''_meta.'' @ key) (Some u) w' =
      Inr (emit (Persist (''_meta.'' @ key) u) (w'\<lparr>store := set_path [''_meta'', key] u (store w')\<rparr>))"
    for u w'
    using plain_not_reserved [OF assms] plain_not_refused [OF assms, of w']
    by (simp add: config_set_def path_of_meta [OF assms, simplified])
  ultimately show ?thesis
    by (simp add: setConfig_def recorded_def emit_def stamp_def)
qed

lemma config_get_recorded:
  "plain_key key \<Longrightarrow> key \<noteq> ''_meta'' \<Longrightarrow> config_get key (recorded key v w) = Some v"
  by (simp add: config_get_def recorded_def path_of_plain map_of_obj_put)

lemma env_recorded [simp]: "env (recorded key v w) = env w"
  by (simp add: recorded_def)

lemma procs_recorded [simp]: "procs (recorded key v w) = procs w"
  by (simp add: recorded_def)

lemma schema_key_cases:
  "k \<in> set (map fst CONFIG_SCHEMA) \<Longrightarrow>
   k = ''server_port'' \<or> k = ''secret_key'' \<or> k = ''working_dir'' \<or> k = ''deployment_command''
   \<or> k = ''server_url'' \<or> k = ''servers'' \<or> k = ''server_pid''"
  by (simp add: CONFIG_SCHEMA_def)

lemma schema_key_plain: "k \<in> set (map fst CONFIG_SCHEMA) \<Longrightarrow> plain_key k \<and> k \<noteq> ''_meta''"
  by (drule schema_key_cases) (auto simp: plain_key_def special_def disallowed_def)

lemma schema_key_entry: "k \<in> set (map fst CONFIG_SCHEMA) \<Longrightarrow> \<exists>sc. map_of CONFIG_SCHEMA k = Some sc"
  by (metis (no_types, opaque_lifting) domD dom_map_of_conv_image_fst list.set_map)

section \<open>Resolution order of a setting\<close>

text \<open>
  C4.  For every key of the schema: when the key's environment variable is set,
  \<open>getConfig\<close> returns the environment value whatever the store holds; when it is not
  set, \<open>setConfig(k, v)\<close> succeeds for every value \<open>v\<close> and \<open>getConfig(k)\<close> then returns
  \<open>v\<close>; and when it is not set and the store has no value for the key, \<open>getConfig\<close>
  returns the default of the schema.
\<close>

theorem getConfig_resolution_order:
  assumes k: "k \<in> set (map fst CONFIG_SCHEMA)"
  shows "(\<forall>en ev. schema_env k = Some en \<and> map_of (env w) en = Some ev
            \<longrightarrow> getConfig k w = Some (JStr ev))
       \<and> ((\<forall>en. schema_env k = Some en \<longrightarrow> map_of (env w) en = None) \<longrightarrow>
            (\<forall>v. \<exists>w'. setConfig k (Some v) w = Inr w' \<and> getConfig k w' = Some v)
          \<and> (config_get k w = None \<longrightarrow>
               (\<exists>sc. map_of CONFIG_SCHEMA k = Some sc \<and> getConfig k w = Some (sc_default sc))))"
proof (intro conjI allI impI)
  fix en ev
  assume "schema_env k = Some en \<and> map_of (env w) en = Some ev"
  then show "getConfig k w = Some (JStr ev)"
    by (simp add: getConfig_def process_env_def)
next
  fix v
  assume unset: "\<forall>en. schema_env k = Some en \<longrightarrow> map_of (env w) en = None"
  from k obtain sc where sc: "map_of CONFIG_SCHEMA k = Some sc"
    using schema_key_entry by blast
  from k have plain: "plain_key k" "k \<noteq> ''_meta''"
    using schema_key_plain by blast+
  have "setConfig k (Some v) w = Inr (recorded k v w)"
    using plain by (simp add: setConfig_plain)
  moreover have "getConfig k (recorded k v w) = Some v"
    using unset sc plain
    by (cases "schema_env k") (simp_all add: getConfig_def process_env_def config_get_recorded)
  ultimately show "\<exists>w'. setConfig k (Some v) w = Inr w' \<and> getConfig k w' = Some v"
    by blast
next
  assume unset: "\<forall>en. schema_env k = Some en \<longrightarrow> map_of (env w) en = None"
    and absent: "config_get k w = None"
  from k obtain sc where sc: "map_of CONFIG_SCHEMA k = Some sc"
    using schema_key_entry by blast
  have "getConfig k w = Some (sc_default sc)"
    using unset sc absent
    by (cases "schema_env k") (simp_all add: getConfig_def process_env_def)
  with sc show "\<exists>sc. map_of CONFIG_SCHEMA k = Some sc \<and> getConfig k w = Some (sc_default sc)"
    by blast
qed

theorem getConfig_resolution_order_witness:
  "getConfig ''secret_key'' (configured\<lparr>env := [(''SECRET_KEY'', ''from-env'')]\<rparr>) = Some (JStr ''from-env'')
   \<and> (\<exists>w'. setConfig ''secret_key'' (Some (JStr ''rotated'')) configured = Inr w'
            \<and> getConfig ''secret_key'' w' = Some (JStr ''rotated''))
   \<and> getConfig ''server_port'' bare = Some (JNum 3000)"
proof -
  have k1: "''secret_key'' \<in> set (map fst CONFIG_SCHEMA)"
    and k2: "''server_port'' \<in> set (map fst CONFIG_SCHEMA)"
    by (simp_all add: CONFIG_SCHEMA_def)
  have e: "schema_env ''secret_key'' = Some ''SECRET_KEY''"
    "schema_env ''server_port'' = Some ''SERVER_PORT''"
    by (simp_all add: schema_env_def CONFIG_SCHEMA_def)
  have d: "map_of CONFIG_SCHEMA ''server_port'' =
      Some \<lparr>sc_default = JNum 3000, sc_security = ''low'', sc_env = Some ''SERVER_PORT'',
            sc_description = ''Server Port''\<rparr>"
    by (simp add: CONFIG_SCHEMA_def)
  have "getConfig ''secret_key'' (configured\<lparr>env := [(''SECRET_KEY'', ''from-env'')]\<rparr>)
      = Some (JStr ''from-env'')"
    using getConfig_resolution_order [OF k1, of "configured\<lparr>env := [(''SECRET_KEY'', ''from-env'')]\<rparr>"] e
    by simp
  moreover have "\<exists>w'. setConfig ''secret_key'' (Some (JStr ''rotated'')) configured = Inr w'
            \<and> getConfig ''secret_key'' w' = Some (JStr ''rotated'')"
    using getConfig_resolution_order [OF k1, of configured] e
    by (simp add: configured_def bare_def)
  moreover have "getConfig ''server_port'' bare = Some (JNum 3000)"
    using getConfig_resolution_order [OF k2, of bare] e d
    by (simp add: bare_def config_get_def path_of_def disallowed_def)
  ultimately show ?thesis by blast
qed

section \<open>Mandatory configuration\<close>

lemma foldl_join: "foldl (\<lambda>acc x. acc @ sep @ x) y ys = y @ concat (map (\<lambda>x. sep @ x) ys)"
  by (induction ys arbitrary: y) auto

lemma sublist_concat_member: "x \<in> set xs \<Longrightarrow> sublist (f x) (concat (map (\<lambda>x. sep @ f x) xs))"
proof (induction xs)
  case Nil
  then show ?case by simp
next
  case (Cons a xs)
  then show ?case
    by (auto simp: sublist_append)
qed

lemma sublist_join: "x \<in> set xs \<Longrightarrow> sublist (f x) (join sep (map f xs))"
proof (cases xs)
  case Nil
  then show "x \<in> set xs \<Longrightarrow> ?thesis" by simp
next
  case (Cons y ys)
  assume "x \<in> set xs"
  then consider "x = y" | "x \<in> set ys" using Cons by auto
  then show ?thesis
  proof cases
    case 1
    then show ?thesis by (simp add: join_def Cons foldl_join)
  next
    case 2
    have "sublist (f x) (concat (map (\<lambda>x. sep @ f x) ys))"
      using 2 by (rule sublist_concat_member)
    then show ?thesis
      by (simp add: join_def Cons foldl_join comp_def sublist_append)
  qed
qed

lemma sublist_mid: "sublist x m \<Longrightarrow> sublist x (p @ m @ s)"
  by (metis sublist_appendI sublist_order.order_trans)

lemma message_names_key:
  assumes "k \<in> set ms"
  shows "\<exists>m. getMissingConfigMessage ms = Some m \<and> sublist (quoted k) m"
proof -
  have ne: "length ms \<noteq> 0" using assms by auto
  have "sublist (quoted k) (join '', '' (map quoted ms))"
    using assms by (rule sublist_join)
  then have "sublist (quoted k)
      (''Error: Required configuration parameter(s) '' @ join '', '' (map quoted ms)
        @ ('' are not set.'' @ [CHR 0x0A] @ join [CHR 0x0A] (map instruction ms)))"
    by (rule sublist_mid)
  then show ?thesis
    unfolding getMissingConfigMessage_def Let_def using ne by (simp only: if_False) blast
qed

lemma validate_set:
  "set (validateMandatoryConfig w) = {k \<in> set mandatory. \<not> truthy (getConfig k w)}"
  by (auto simp: validateMandatoryConfig_def mandatory_def)

lemma added_logger: "added w (logger l m w) = [Log l m]"
  by (simp add: added_def logger_def emit_def)

lemma getConfig_bare [simp]: "getConfig ''secret_key'' bare = Some JNull"
  by (simp add: getConfig_def schema_env_def CONFIG_SCHEMA_def process_env_def bare_def config_get_def
      path_of_def disallowed_def)

text \<open>
  C3.  Whenever one of \<open>secret_key\<close>, \<open>working_dir\<close>, \<open>deployment_command\<close> resolves to a
  falsy value, \<open>start\<close> and \<open>listen\<close> both end with \<open>process.exit(1)\<close> after logging one
  error message and doing nothing else (no process spawned, no server started, nothing
  written), and that message contains the quoted name of every mandatory key that is
  missing.
\<close>

theorem missing_config_fails_fast:
  assumes k: "k \<in> set mandatory" and falsy: "\<not> truthy (getConfig k w)"
  shows "\<exists>msg. start_action port outcome w = (Exited 1, logger Error msg w)
              \<and> listen_action port w = (Exited 1, logger Error msg w)
              \<and> added w (logger Error msg w) = [Log Error msg]
              \<and> (\<forall>k' \<in> set mandatory. \<not> truthy (getConfig k' w) \<longrightarrow> sublist (quoted k') msg)"
proof -
  let ?ms = "validateMandatoryConfig w"
  have mem: "k \<in> set ?ms"
    using k falsy by (simp add: validate_set)
  then obtain m where m: "getMissingConfigMessage ?ms = Some m"
    using message_names_key by blast
  have pos: "length ?ms > 0"
    using mem by (cases ?ms) auto
  have "start_action port outcome w = (Exited 1, logger Error m w)"
    using pos m by (simp add: start_action_def Let_def message_text_def)
  moreover have "listen_action port w = (Exited 1, logger Error m w)"
    using pos m by (simp add: listen_action_def Let_def message_text_def)
  moreover have "\<forall>k' \<in> set mandatory. \<not> truthy (getConfig k' w) \<longrightarrow> sublist (quoted k') m"
  proof (intro ballI impI)
    fix k'
    assume "k' \<in> set mandatory" "\<not> truthy (getConfig k' w)"
    then have "k' \<in> set ?ms" by (simp add: validate_set)
    then show "sublist (quoted k') m"
      using message_names_key m by fastforce
  qed
  ultimately show ?thesis
    using added_logger by blast
qed

theorem missing_config_fails_fast_witness:
  "''secret_key'' \<in> set mandatory \<and> \<not> truthy (getConfig ''secret_key'' bare)
   \<and> (\<exists>msg. start_action None (Emits [ChildClose (Some 0)]) bare = (Exited 1, logger Error msg bare)
              \<and> listen_action None bare = (Exited 1, logger Error msg bare)
              \<and> added bare (logger Error msg bare) = [Log Error msg]
              \<and> (\<forall>k' \<in> set mandatory. \<not> truthy (getConfig k' bare) \<longrightarrow> sublist (quoted k') msg))"
proof -
  have a: "''secret_key'' \<in> set mandatory" by (simp add: mandatory_def)
  have b: "\<not> truthy (getConfig ''secret_key'' bare)" by simp
  show ?thesis
    using a b missing_config_fails_fast [OF a b, of None "Emits [ChildClose (Some 0)]"] by blast
qed
section \<open>Signals, the log and the recorded process id\<close>

lemma emit_procs_update: "emit e (w\<lparr>procs := ps\<rparr>) = (emit e w)\<lparr>procs := ps\<rparr>"
  by (simp add: emit_def)

lemma to_pid_emit [simp]: "to_pid (emit e w) pid = to_pid w pid"
  by (cases "(w, pid)" rule: to_pid.cases) (simp_all add: emit_def)

lemma process_kill_emit:
  "process_kill pid sig (emit e w) =
     (case process_kill pid sig w of Inl x \<Rightarrow> Inl x | Inr w' \<Rightarrow> Inr (emit e w'))"
  by (cases sig)
     (auto simp: process_kill_def emit_procs_update split: option.splits proc.splits owner.splits)

lemma process_kill_logger:
  "process_kill pid sig (logger l m w) =
     (case process_kill pid sig w of Inl x \<Rightarrow> Inl x | Inr w' \<Rightarrow> Inr (logger l m w'))"
  unfolding logger_def by (rule process_kill_emit)

lemma probe_Inr: "process_kill pid Sig0 w = Inr w' \<Longrightarrow> w' = w"
  by (auto simp: process_kill_def split: option.splits proc.splits owner.splits)

lemma probe_cases:
  "(probe_succeeds pid w \<and> process_kill pid Sig0 w = Inr w)
   \<or> (\<not> probe_succeeds pid w \<and> (\<exists>e. process_kill pid Sig0 w = Inl e))"
  by (cases "process_kill pid Sig0 w") (auto simp: probe_succeeds_def dest: probe_Inr)

lemma probe_succeeds_emit [simp]: "probe_succeeds pid (emit e w) = probe_succeeds pid w"
  by (simp add: probe_succeeds_def process_kill_emit split: sum.splits)

lemma process_env_emit [simp]: "process_env n (emit e w) = process_env n w"
  by (simp add: process_env_def)

lemma config_get_emit [simp]: "config_get k (emit e w) = config_get k w"
  by (simp add: config_get_def)

lemma getConfig_emit [simp]: "getConfig k (emit e w) = getConfig k w"
  by (simp add: getConfig_def cong: option.case_cong)

lemma getConfig_logger [simp]: "getConfig k (logger l m w) = getConfig k w"
  by (simp add: logger_def)

lemma store_logger [simp]: "store (logger l m w) = store w"
  by (simp add: logger_def)

lemma procs_logger [simp]: "procs (logger l m w) = procs w"
  by (simp add: logger_def)

lemma trace_logger [simp]: "trace (logger l m w) = trace w @ [Log l m]"
  by (simp add: logger_def emit_def)

lemma trace_recorded [simp]:
  "trace (recorded key v w) = trace w @ [Persist key v, Persist (''_meta.'' @ key) (stamp w)]"
  by (simp add: recorded_def)

lemma stamp_emit [simp]: "stamp (emit e w) = stamp w"
  by (simp add: stamp_def emit_def)

lemma stamp_logger [simp]: "stamp (logger l m w) = stamp w"
  by (simp add: logger_def)

lemma plain_pid: "plain_key ''server_pid''"
  by (simp add: plain_key_def special_def disallowed_def)

lemma set_pid: "setConfig ''server_pid'' (Some v) w = Inr (recorded ''server_pid'' v w)"
  by (simp add: setConfig_plain plain_pid)

lemma pid_recorded [simp]: "getConfig ''server_pid'' (recorded ''server_pid'' v w) = Some v"
  by (simp add: getConfig_def schema_env_def CONFIG_SCHEMA_def config_get_recorded plain_pid)

lemma added_append: "trace w' = trace w @ t \<Longrightarrow> added w w' = t"
  by (simp add: added_def)

text \<open>The example hosts, evaluated.\<close>

lemmas world_defs = bare_def configured_def running_def stale_def orphaned_def

lemmas eval_defs = getConfig_def schema_env_def CONFIG_SCHEMA_def config_get_def process_env_def
  probe_succeeds_def process_kill_def int32_def path_of_def disallowed_def

lemma pid_running: "getConfig ''server_pid'' running = Some (JNum 4242)"
  by (simp add: eval_defs world_defs)

lemma pid_stale: "getConfig ''server_pid'' stale = Some (JNum 999)"
  by (simp add: eval_defs world_defs)

lemma pid_configured: "getConfig ''server_pid'' configured = Some JNull"
  by (simp add: eval_defs world_defs)

lemma probe_running: "probe_succeeds (Some (JNum 4242)) running"
  by (simp add: eval_defs world_defs)

lemma probe_stale: "\<not> probe_succeeds (Some (JNum 999)) stale"
  by (simp add: eval_defs world_defs)

lemma shown_ids: "string_of_int 4242 = ''4242''" "string_of_int 999 = ''999''"
  by (simp_all add: string_of_int_def digit_char_def)

section \<open>The status command\<close>

text \<open>
  C6.  In native mode (the \<open>pm2 describe\<close> child closed with a code other than 0),
  \<open>status\<close> reports "NOT running" when no process id is recorded; probes a recorded id
  with signal 0 and reports "RUNNING" when the probe succeeds, leaving the store as it
  was; and when the probe fails reports "NOT running", writes \<open>null\<close> over the stale id
  and returns normally.  In every case the process table is untouched.
\<close>

theorem status_native_probe:
  assumes native: "code \<noteq> Some 0"
  shows "(\<not> truthy (getConfig ''server_pid'' w) \<longrightarrow>
            status_action (Emits [ChildClose code]) w =
              (Returned, logger Info ''Server is NOT running.''
                           (emit (Spawn ''pm2'' [''describe'', ''redep-server''] None False) w)))
       \<and> (truthy (getConfig ''server_pid'' w) \<and> probe_succeeds (getConfig ''server_pid'' w) w \<longrightarrow>
            status_action (Emits [ChildClose code]) w =
              (Returned,
               logger Success (''Server is RUNNING (PID '' @ to_string (getConfig ''server_pid'' w) @ '')'')
                 (emit (Spawn ''pm2'' [''describe'', ''redep-server''] None False) w)))
       \<and> (truthy (getConfig ''server_pid'' w) \<and> \<not> probe_succeeds (getConfig ''server_pid'' w) w \<longrightarrow>
            status_action (Emits [ChildClose code]) w =
              (Returned,
               recorded ''server_pid'' JNull
                 (logger Warn
                    (''Server is NOT running (Stale PID '' @ to_string (getConfig ''server_pid'' w) @ '' found).'')
                    (emit (Spawn ''pm2'' [''describe'', ''redep-server''] None False) w)))
            \<and> getConfig ''server_pid'' (snd (status_action (Emits [ChildClose code]) w)) = Some JNull)
       \<and> procs (snd (status_action (Emits [ChildClose code]) w)) = procs w"
proof -
  let ?w0 = "emit (Spawn ''pm2'' [''describe'', ''redep-server''] None False) w"
  let ?pid = "getConfig ''server_pid'' w"
  have run: "status_action (Emits [ChildClose code]) w = status_on_event (ChildClose code) ?w0"
    by (simp add: status_action_def Let_def)
  consider (absent) "\<not> truthy ?pid"
    | (live) "truthy ?pid" "probe_succeeds ?pid w"
    | (stale) "truthy ?pid" "\<not> probe_succeeds ?pid w"
    by blast
  then show ?thesis
  proof cases
    case absent
    then show ?thesis
      using native by (simp add: run status_on_event_def)
  next
    case live
    then have "process_kill ?pid Sig0 ?w0 = Inr ?w0"
      using probe_cases [of ?pid ?w0] by simp
    then show ?thesis
      using native live by (simp add: run status_on_event_def)
  next
    case stale
    then obtain e where "process_kill ?pid Sig0 ?w0 = Inl e"
      using probe_cases [of ?pid ?w0] by auto
    then show ?thesis
      using native stale by (simp add: run status_on_event_def set_pid)
  qed
qed

theorem status_native_probe_witness:
  "fst (status_action (Emits [ChildClose (Some 1)]) configured) = Returned
   \<and> added configured (snd (status_action (Emits [ChildClose (Some 1)]) configured))
       = [Spawn ''pm2'' [''describe'', ''redep-server''] None False, Log Info ''Server is NOT running.'']
   \<and> added running (snd (status_action (Emits [ChildClose (Some 1)]) running))
       = [Spawn ''pm2'' [''describe'', ''redep-server''] None False,
          Log Success ''Server is RUNNING (PID 4242)'']
   \<and> store (snd (status_action (Emits [ChildClose (Some 1)]) running)) = store running
   \<and> fst (status_action (Emits [ChildClose (Some 1)]) stale) = Returned
   \<and> getConfig ''server_pid'' (snd (status_action (Emits [ChildClose (Some 1)]) stale)) = Some JNull"
proof -
  have n: "Some (1::int) \<noteq> Some 0" by simp
  show ?thesis
    using status_native_probe [OF n, of configured] status_native_probe [OF n, of running]
      status_native_probe [OF n, of stale]
    by (simp add: pid_running pid_stale pid_configured probe_running probe_stale added_def shown_ids)
qed

section \<open>The stop command\<close>

lemma no_error_log_simps [simp]:
  "Log Error m \<noteq> Spawn a b c d" "Log Error m \<noteq> Persist k v" "Log Error m \<noteq> Log Warn x"
  "Log Error m \<noteq> Log Success x" "Log Error m \<noteq> Log Info x"
  by simp_all

text \<open>
  C7.  In native mode (the \<open>pm2 stop\<close> child closed with a code other than 0) and with a
  process id recorded: when the signal fails with code \<open>ESRCH\<close>, \<open>stop\<close> logs a warning,
  writes \<open>null\<close> over the recorded id and returns normally; when the signal is delivered
  it writes \<open>null\<close> over the recorded id and reports the stop.  In both cases nothing is
  logged as an error.
\<close>

theorem stop_native_clears:
  assumes native: "code \<noteq> Some 0" and rec: "truthy (getConfig ''server_pid'' w)"
  shows "(\<forall>e. process_kill (getConfig ''server_pid'' w) SIGTERM w = Inl e \<and> exn_code e = ''ESRCH'' \<longrightarrow>
            stop_action (Emits [ChildClose code]) w =
              (Returned,
               recorded ''server_pid'' JNull
                 (logger Warn
                    (''Process '' @ to_string (getConfig ''server_pid'' w) @ '' not found. Cleaning up config.'')
                    (emit (Spawn ''pm2'' [''stop'', ''redep-server''] None False) w))))
       \<and> (\<forall>w1. process_kill (getConfig ''server_pid'' w) SIGTERM w = Inr w1 \<longrightarrow>
            stop_action (Emits [ChildClose code]) w =
              (Returned,
               logger Success (''Server stopped (PID '' @ to_string (getConfig ''server_pid'' w) @ '')'')
                 (recorded ''server_pid'' JNull
                    (emit (Spawn ''pm2'' [''stop'', ''redep-server''] None False) w1))))
       \<and> ((\<exists>w1. process_kill (getConfig ''server_pid'' w) SIGTERM w = Inr w1)
            \<or> (\<exists>e. process_kill (getConfig ''server_pid'' w) SIGTERM w = Inl e \<and> exn_code e = ''ESRCH'') \<longrightarrow>
            fst (stop_action (Emits [ChildClose code]) w) = Returned
            \<and> getConfig ''server_pid'' (snd (stop_action (Emits [ChildClose code]) w)) = Some JNull
            \<and> (\<forall>m. Log Error m \<notin> set (added w (snd (stop_action (Emits [ChildClose code]) w)))))"
proof -
  let ?w0 = "emit (Spawn ''pm2'' [''stop'', ''redep-server''] None False) w"
  let ?pid = "getConfig ''server_pid'' w"
  have run: "stop_action (Emits [ChildClose code]) w = stop_on_event (ChildClose code) ?w0"
    by (simp add: stop_action_def Let_def)
  have gone: "stop_action (Emits [ChildClose code]) w =
      (Returned, recorded ''server_pid'' JNull
         (logger Warn (''Process '' @ to_string ?pid @ '' not found. Cleaning up config.'') ?w0))"
    if "process_kill ?pid SIGTERM w = Inl e" "exn_code e = ''ESRCH''" for e
    using that native rec
    by (simp add: run stop_on_event_def Let_def process_kill_emit set_pid)
  have killed: "stop_action (Emits [ChildClose code]) w =
      (Returned, logger Success (''Server stopped (PID '' @ to_string ?pid @ '')'')
         (recorded ''server_pid'' JNull (emit (Spawn ''pm2'' [''stop'', ''redep-server''] None False) w1)))"
    if "process_kill ?pid SIGTERM w = Inr w1" for w1
    using that native rec
    by (simp add: run stop_on_event_def Let_def process_kill_emit set_pid)
  have tr: "trace w1 = trace w" if "process_kill ?pid SIGTERM w = Inr w1" for w1
    using that by (auto simp: process_kill_def split: option.splits proc.splits owner.splits)
  have third: "fst (stop_action (Emits [ChildClose code]) w) = Returned
            \<and> getConfig ''server_pid'' (snd (stop_action (Emits [ChildClose code]) w)) = Some JNull
            \<and> (\<forall>m. Log Error m \<notin> set (added w (snd (stop_action (Emits [ChildClose code]) w))))"
    if "(\<exists>w1. process_kill ?pid SIGTERM w = Inr w1)
        \<or> (\<exists>e. process_kill ?pid SIGTERM w = Inl e \<and> exn_code e = ''ESRCH'')"
    using that
  proof
    assume "\<exists>w1. process_kill ?pid SIGTERM w = Inr w1"
    then obtain w1 where k: "process_kill ?pid SIGTERM w = Inr w1" by blast
    show ?thesis
      by (simp add: killed [OF k] added_def tr [OF k])
  next
    assume "\<exists>e. process_kill ?pid SIGTERM w = Inl e \<and> exn_code e = ''ESRCH''"
    then obtain e where k: "process_kill ?pid SIGTERM w = Inl e" "exn_code e = ''ESRCH''" by blast
    show ?thesis
      by (simp add: gone [OF k] added_def)
  qed
  show ?thesis
    using gone killed third by blast
qed

lemma kill_stale: "process_kill (Some (JNum 999)) SIGTERM stale = Inl (Exn ''ESRCH'' ''kill ESRCH'')"
  by (simp add: eval_defs world_defs)

lemma kill_running:
  "process_kill (Some (JNum 4242)) SIGTERM running = Inr (running\<lparr>procs := [(1, Proc Other Another), (412, Proc Other Self)]\<rparr>)"
  by (simp add: eval_defs world_defs)

theorem stop_native_clears_witness:
  "fst (stop_action (Emits [ChildClose (Some 1)]) stale) = Returned
   \<and> getConfig ''server_pid'' (snd (stop_action (Emits [ChildClose (Some 1)]) stale)) = Some JNull
   \<and> fst (stop_action (Emits [ChildClose (Some 1)]) running) = Returned
   \<and> getConfig ''server_pid'' (snd (stop_action (Emits [ChildClose (Some 1)]) running)) = Some JNull
   \<and> procs (snd (stop_action (Emits [ChildClose (Some 1)]) running)) = [(1, Proc Other Another), (412, Proc Other Self)]"
proof -
  have n: "Some (1::int) \<noteq> Some 0" by simp
  have s: "truthy (getConfig ''server_pid'' stale)" and r: "truthy (getConfig ''server_pid'' running)"
    by (simp_all add: pid_stale pid_running)
  show ?thesis
    using stop_native_clears [OF n s] stop_native_clears [OF n r]
    by (simp add: pid_stale pid_running kill_stale kill_running)
qed

section \<open>Starting the self-managed server\<close>

lemma argv_recorded [simp]:
  "argv0 (recorded key v w) = argv0 w" "argv1 (recorded key v w) = argv1 w"
  "os_pids (recorded key v w) = os_pids w" "stamp (recorded key v w) = stamp w"
  by (simp_all add: recorded_def stamp_def)

lemma fields_emit [simp]: "argv0 (emit e w) = argv0 w" "argv1 (emit e w) = argv1 w"
  by (simp_all add: emit_def)

lemma fields_logger [simp]:
  "argv0 (logger l m w) = argv0 w" "argv1 (logger l m w) = argv1 w" "os_pids (logger l m w) = os_pids w"
  "env (logger l m w) = env w"
  by (simp_all add: logger_def)

lemma to_pid_number: "to_pid w (Some (JNum p)) = (if int32 p then Some p else None)"
  by simp

lemma spawn_and_persist_started:
  assumes "os_pids w = Some c # rest"
  shows "spawn_and_persist port w =
     (Returned,
      logger Success (''Server started in background (native) with PID '' @ string_of_int c)
        (recorded ''server_pid'' (JNum c)
           ((emit (Spawn (argv0 w) (argv1 w # listen_args port) None True) w)
              \<lparr>os_pids := rest, procs := (c, Proc Daemon Self) # procs w\<rparr>)))"
  using assms by (simp add: spawn_and_persist_def spawn_detached_def Let_def set_pid)

lemma spawn_and_persist_failed:
  assumes "\<forall>c rest. os_pids w \<noteq> Some c # rest"
  shows "\<exists>e w'. spawn_and_persist port w = (Uncaught e, w') \<and> procs w' = procs w \<and> store w' = store w
           \<and> env w' = env w
           \<and> trace w' = trace w @ [Spawn (argv0 w) (argv1 w # listen_args port) None True]"
proof (cases "os_pids w")
  case Nil
  then show ?thesis
    by (simp add: spawn_and_persist_def spawn_detached_def Let_def setConfig_def config_set_def)
next
  case (Cons a rest)
  with assms have "a = None" by (cases a) auto
  with Cons show ?thesis
    by (simp add: spawn_and_persist_def spawn_detached_def Let_def setConfig_def config_set_def)
qed



lemma probe_trichotomy:
  "(probe_succeeds pid w \<and> \<not> probe_refused pid w \<and> \<not> no_such_process pid w)
   \<or> (\<not> probe_succeeds pid w \<and> probe_refused pid w \<and> \<not> no_such_process pid w)
   \<or> (\<not> probe_succeeds pid w \<and> \<not> probe_refused pid w \<and> no_such_process pid w)"
  by (cases "process_kill pid Sig0 w")
     (simp_all add: probe_succeeds_def probe_refused_def no_such_process_def)




lemma daemons_emit [simp]: "daemons (emit e w) = daemons w"
  by (simp add: daemons_def)

lemma daemons_logger [simp]: "daemons (logger l m w) = daemons w"
  by (simp add: daemons_def)

lemma tracked_logger [simp]: "tracked (logger l m w) = tracked w"
  by (simp add: tracked_def)

lemma start_live:
  assumes "truthy (getConfig ''server_pid'' w)" "probe_succeeds (getConfig ''server_pid'' w) w"
  shows "startNativeBackground port w =
      (Returned, logger Warn (''Server is already running with PID '' @ to_string (getConfig ''server_pid'' w)) w)"
proof -
  from assms(2) have "process_kill (getConfig ''server_pid'' w) Sig0 w = Inr w"
    using probe_cases [of "getConfig ''server_pid'' w" w] by simp
  with assms(1) show ?thesis
    by (simp add: startNativeBackground_def)
qed

lemma start_stale:
  assumes "truthy (getConfig ''server_pid'' w)" "\<not> probe_succeeds (getConfig ''server_pid'' w) w"
  shows "startNativeBackground port w = spawn_and_persist port (recorded ''server_pid'' JNull w)"
proof -
  from assms(2) obtain e where "process_kill (getConfig ''server_pid'' w) Sig0 w = Inl e"
    using probe_cases [of "getConfig ''server_pid'' w" w] by auto
  with assms(1) show ?thesis
    by (simp add: startNativeBackground_def set_pid)
qed

lemma start_unrecorded:
  "\<not> truthy (getConfig ''server_pid'' w) \<Longrightarrow> startNativeBackground port w = spawn_and_persist port w"
  by (simp add: startNativeBackground_def)

lemma start_respawn:
  assumes rec: "truthy (getConfig ''server_pid'' w)"
    and gone: "\<not> probe_succeeds (getConfig ''server_pid'' w) w"
    and os: "os_pids w = Some c # rest"
  shows "startNativeBackground port w =
      (Returned,
       logger Success (''Server started in background (native) with PID '' @ string_of_int c)
         (recorded ''server_pid'' (JNum c)
            ((emit (Spawn (argv0 w) (argv1 w # listen_args port) None True)
                (recorded ''server_pid'' JNull w))
               \<lparr>os_pids := rest, procs := (c, Proc Daemon Self) # procs w\<rparr>)))"
proof -
  have "os_pids (recorded ''server_pid'' JNull w) = Some c # rest"
    using os by simp
  from spawn_and_persist_started [OF this, of port] show ?thesis
    by (simp add: start_stale [OF rec gone])
qed

lemma stamp_update [simp]: "stamp (w\<lparr>os_pids := a, procs := b\<rparr>) = stamp w"
  by (simp add: stamp_def)

lemma to_pid_recorded [simp]: "to_pid (recorded key v w) pid = to_pid w pid"
  by (cases "(w, pid)" rule: to_pid.cases) (simp_all add: recorded_def)

lemma to_pid_logger [simp]: "to_pid (logger l m w) pid = to_pid w pid"
  by (simp add: logger_def)












text \<open>
  The probe of \<open>startNativeBackground\<close> is caught whatever it throws, where \<open>stop\<close> asks
  for the code \<open>ESRCH\<close>: a recorded server that is alive but belongs to another user
  answers \<open>EPERM\<close>, is taken for gone, and a second server is spawned beside it.
\<close>

lemma start_native_eperm:
  "probe_refused (getConfig ''server_pid'' guarded) guarded
   \<and> daemons guarded = [4242]
   \<and> fst (startNativeBackground None guarded) = Returned
   \<and> daemons (snd (startNativeBackground None guarded)) = [4243, 4242]"
proof -
  have pid: "getConfig ''server_pid'' guarded = Some (JNum 4242)"
    by (simp add: eval_defs world_defs guarded_def)
  have t: "truthy (getConfig ''server_pid'' guarded)"
    by (simp add: pid)
  have r: "probe_refused (getConfig ''server_pid'' guarded) guarded"
    by (simp add: pid probe_refused_def eval_defs world_defs guarded_def)
  then have g: "\<not> probe_succeeds (getConfig ''server_pid'' guarded) guarded"
    using probe_trichotomy [of "getConfig ''server_pid'' guarded" guarded] by blast
  have os: "os_pids guarded = Some 4243 # []"
    by (simp add: world_defs guarded_def)
  have p: "procs guarded = [(4242, Proc Daemon Another), (1, Proc Other Another), (412, Proc Other Self)]"
    by (simp add: world_defs guarded_def)
  show ?thesis
    using r by (simp add: start_respawn [OF t g os] daemons_def p)
qed

section \<open>The start command and the external process manager\<close>

lemma quiet_started [simp]: "quiet (Log Success (CHR ''S'' # x))" "quiet (Log Warn (CHR ''S'' # x))"
  by simp_all

lemma spawn_and_persist_trace:
  "\<exists>t. trace (snd (spawn_and_persist port w)) = trace w @ t \<and> list_all quiet t
       \<and> list_ex native_mark t
       \<and> (\<forall>n. fst (spawn_and_persist port w) \<noteq> Exited n)"
proof (cases "\<exists>c rest. os_pids w = Some c # rest")
  case True
  then obtain c rest where os: "os_pids w = Some c # rest" by blast
  show ?thesis
    by (simp add: spawn_and_persist_started [OF os])
next
  case False
  then have "\<forall>c rest. os_pids w \<noteq> Some c # rest" by simp
  from spawn_and_persist_failed [OF this, of port] show ?thesis
    by auto
qed

lemma native_trace:
  "\<exists>t. trace (snd (startNativeBackground port w)) = trace w @ t \<and> list_all quiet t
       \<and> list_ex native_mark t
       \<and> (\<forall>n. fst (startNativeBackground port w) \<noteq> Exited n)"
proof (cases "truthy (getConfig ''server_pid'' w)")
  case False
  then show ?thesis
    using spawn_and_persist_trace [of port w] by (simp add: start_unrecorded)
next
  case rec: True
  show ?thesis
  proof (cases "probe_succeeds (getConfig ''server_pid'' w) w")
    case True
    show ?thesis
      by (simp add: start_live [OF rec True])
  next
    case False
    from spawn_and_persist_trace [of port "recorded ''server_pid'' JNull w"]
    obtain t where "trace (snd (spawn_and_persist port (recorded ''server_pid'' JNull w)))
        = trace (recorded ''server_pid'' JNull w) @ t" "list_all quiet t" "list_ex native_mark t"
      "\<forall>n. fst (spawn_and_persist port (recorded ''server_pid'' JNull w)) \<noteq> Exited n"
      by blast
    then show ?thesis
      by (simp add: start_stale [OF rec False])
  qed
qed

lemma quiet_not_fell_back: "list_all quiet t \<Longrightarrow> \<not> fell_back t \<and> (\<forall>m. Log Error m \<notin> set t)"
  by (fastforce simp: fell_back_def list_all_iff)

lemma fell_back_append: "fell_back (a @ b) = (fell_back a \<or> fell_back b)"
  by (auto simp: fell_back_def)

lemma start_on_event_trace:
  "\<exists>t. trace (snd (start_on_event port ev w)) = trace w @ t
       \<and> (\<forall>n. fst (start_on_event port ev w) \<noteq> Exited n)
       \<and> (\<forall>m. Log Error m \<notin> set t)
       \<and> (fell_back t \<longleftrightarrow> failure ev)
       \<and> (list_ex native_mark t \<longleftrightarrow> failure ev)
       \<and> (\<not> failure ev \<longrightarrow> fst (start_on_event port ev w) = Returned)"
proof (cases ev)
  case (ChildError e)
  let ?w1 = "logger Info ''PM2 not found, falling back to native background process...'' w"
  from native_trace [of port ?w1] obtain t where
    t: "trace (snd (startNativeBackground port ?w1)) = trace ?w1 @ t" "list_all quiet t"
    "list_ex native_mark t" "\<forall>n. fst (startNativeBackground port ?w1) \<noteq> Exited n"
    by blast
  have "trace (snd (start_on_event port ev w))
      = trace w @ (Log Info ''PM2 not found, falling back to native background process...'' # t)"
    using t(1) by (simp add: start_on_event_def ChildError)
  moreover have "fell_back (Log Info ''PM2 not found, falling back to native background process...'' # t)"
    by (simp add: fell_back_def)
  moreover have "\<forall>m. Log Error m \<notin> set (Log Info ''PM2 not found, falling back to native background process...'' # t)"
    using quiet_not_fell_back [OF t(2)] by simp
  moreover have "list_ex native_mark (Log Info ''PM2 not found, falling back to native background process...'' # t)"
    using t(3) by simp
  ultimately show ?thesis
    using t(4) by (auto simp: start_on_event_def ChildError failure_def)
next
  case (ChildClose code)
  show ?thesis
  proof (cases "code = Some 0")
    case True
    have "trace (snd (start_on_event port ev w))
        = trace w @ [Log Success ''Server started in background using PM2'']"
      by (simp add: start_on_event_def ChildClose True)
    moreover have "\<not> fell_back [Log Success ''Server started in background using PM2'']"
      by (simp add: fell_back_def)
    moreover have "\<not> list_ex native_mark [Log Success ''Server started in background using PM2'']"
      by simp
    ultimately show ?thesis
      by (auto simp: start_on_event_def ChildClose True failure_def)
  next
    case False
    let ?w1 = "logger Warn ''PM2 start failed, falling back to native background process...'' w"
    from native_trace [of port ?w1] obtain t where
      t: "trace (snd (startNativeBackground port ?w1)) = trace ?w1 @ t" "list_all quiet t"
      "list_ex native_mark t" "\<forall>n. fst (startNativeBackground port ?w1) \<noteq> Exited n"
      by blast
    have "trace (snd (start_on_event port ev w))
        = trace w @ (Log Warn ''PM2 start failed, falling back to native background process...'' # t)"
      using t(1) False by (simp add: start_on_event_def ChildClose)
    moreover have "fell_back (Log Warn ''PM2 start failed, falling back to native background process...'' # t)"
      by (simp add: fell_back_def)
    moreover have "\<forall>m. Log Error m \<notin> set (Log Warn ''PM2 start failed, falling back to native background process...'' # t)"
      using quiet_not_fell_back [OF t(2)] by simp
    moreover have "list_ex native_mark (Log Warn ''PM2 start failed, falling back to native background process...'' # t)"
      using t(3) by simp
    ultimately show ?thesis
      using t(4) False by (auto simp: start_on_event_def ChildClose failure_def)
  qed
qed

lemma run_handlers_stopped: "st \<noteq> Returned \<Longrightarrow> run_handlers h evs (st, w) = (st, w)"
  by (cases evs) simp_all

lemma start_events_trace:
  "\<exists>t. trace (snd (run_handlers (start_on_event port) evs (Returned, w))) = trace w @ t
       \<and> (\<forall>n. fst (run_handlers (start_on_event port) evs (Returned, w)) \<noteq> Exited n)
       \<and> (\<forall>m. Log Error m \<notin> set t)
       \<and> (fell_back t \<longleftrightarrow> list_ex failure evs)
       \<and> (list_ex native_mark t \<longleftrightarrow> list_ex failure evs)"
proof (induction evs arbitrary: w)
  case Nil
  show ?case by (simp add: fell_back_def)
next
  case (Cons ev evs)
  obtain st w' where r: "start_on_event port ev w = (st, w')"
    by (cases "start_on_event port ev w") auto
  from start_on_event_trace [of port ev w] r obtain t1 where
    t1: "trace w' = trace w @ t1" "\<forall>n. st \<noteq> Exited n" "\<forall>m. Log Error m \<notin> set t1"
      "fell_back t1 \<longleftrightarrow> failure ev" "list_ex native_mark t1 \<longleftrightarrow> failure ev"
      "\<not> failure ev \<longrightarrow> st = Returned"
    by auto
  show ?case
  proof (cases "st = Returned")
    case True
    from Cons.IH [of w'] obtain t2 where
      t2: "trace (snd (run_handlers (start_on_event port) evs (Returned, w'))) = trace w' @ t2"
        "\<forall>n. fst (run_handlers (start_on_event port) evs (Returned, w')) \<noteq> Exited n"
        "\<forall>m. Log Error m \<notin> set t2"
        "fell_back t2 \<longleftrightarrow> list_ex failure evs"
        "list_ex native_mark t2 \<longleftrightarrow> list_ex failure evs"
      by blast
    have "trace (snd (run_handlers (start_on_event port) (ev # evs) (Returned, w))) = trace w @ (t1 @ t2)"
      using t1(1) t2(1) by (simp add: r True)
    moreover have "\<forall>m. Log Error m \<notin> set (t1 @ t2)"
      using t1(3) t2(3) by simp
    moreover have "fell_back (t1 @ t2) \<longleftrightarrow> list_ex failure (ev # evs)"
      using t1(4) t2(4) by (simp add: fell_back_append)
    moreover have "list_ex native_mark (t1 @ t2) \<longleftrightarrow> list_ex failure (ev # evs)"
      using t1(5) t2(5) by simp
    ultimately show ?thesis
      using t2(2) by (auto simp: r True)
  next
    case False
    then have f: "failure ev" using t1(6) by blast
    have "run_handlers (start_on_event port) (ev # evs) (Returned, w) = (st, w')"
      using False by (simp add: r run_handlers_stopped)
    then show ?thesis
      using t1 f by auto
  qed
qed

lemma valid_start:
  assumes "validateMandatoryConfig w = []"
  shows "start_action port outcome w =
     (case outcome of
        SpawnThrows e \<Rightarrow> startNativeBackground port (emit (pm2_start_call port w) w)
      | Emits evs \<Rightarrow> run_handlers (start_on_event port) evs (Returned, emit (pm2_start_call port w) w))"
  using assms by (simp add: start_action_def Let_def)

lemma start_action_trace:
  assumes valid: "validateMandatoryConfig w = []"
  shows "\<exists>t. added w (snd (start_action port outcome w)) = pm2_start_call port w # t
       \<and> (\<forall>n. fst (start_action port outcome w) \<noteq> Exited n)
       \<and> (\<forall>m. Log Error m \<notin> set t)
       \<and> (fell_back t \<longleftrightarrow> child_failed outcome)
       \<and> (list_ex native_mark t \<longleftrightarrow> pm2_failed outcome)"
proof (cases outcome)
  case (SpawnThrows e)
  from native_trace [of port "emit (pm2_start_call port w) w"] obtain t where
    "trace (snd (startNativeBackground port (emit (pm2_start_call port w) w)))
       = trace (emit (pm2_start_call port w) w) @ t" "list_all quiet t" "list_ex native_mark t"
    "\<forall>n. fst (startNativeBackground port (emit (pm2_start_call port w) w)) \<noteq> Exited n"
    by blast
  then show ?thesis
    using quiet_not_fell_back [of t]
    by (simp add: valid_start [OF valid] SpawnThrows added_def child_failed_def pm2_failed_def)
next
  case (Emits evs)
  from start_events_trace [of port evs "emit (pm2_start_call port w) w"] obtain t where
    "trace (snd (run_handlers (start_on_event port) evs (Returned, emit (pm2_start_call port w) w)))
       = trace (emit (pm2_start_call port w) w) @ t"
    "\<forall>n. fst (run_handlers (start_on_event port) evs (Returned, emit (pm2_start_call port w) w)) \<noteq> Exited n"
    "\<forall>m. Log Error m \<notin> set t"
    "fell_back t \<longleftrightarrow> list_ex failure evs"
    "list_ex native_mark t \<longleftrightarrow> list_ex failure evs"
    by blast
  then show ?thesis
    by (simp add: valid_start [OF valid] Emits added_def child_failed_def pm2_failed_def)
qed

lemma fell_back_Cons_spawn [simp]: "fell_back (Spawn a b c d # t) = fell_back t"
  by (simp add: fell_back_def)

lemma valid_configured: "validateMandatoryConfig configured = []"
  by (simp add: validateMandatoryConfig_def eval_defs world_defs)

lemma missing_bare:
  "validateMandatoryConfig bare = [''secret_key'', ''working_dir'', ''deployment_command'']"
  by (simp add: validateMandatoryConfig_def eval_defs world_defs)

lemma trace_bare: "trace bare = []"
  by (simp add: bare_def)

text \<open>
  C5 (amended).  Once the check of the mandatory configuration has passed, the first
  thing \<open>start\<close> does is to spawn \<open>pm2 start\<close>.  It then runs the native path exactly
  when the \<open>spawn\<close> call threw or some event of the child is an \<open>'error'\<close> or a \<open>'close'\<close>
  with a code other than 0.  For every sequence of events of the child, the fallback is
  announced exactly when one of them is such a failure: a single \<open>'error'\<close> runs
  \<open>startNativeBackground\<close> after an \<open>info\<close> line, a single \<open>'close'\<close> with another code
  after a \<open>warn\<close> line, and a single \<open>'close'\<close> with code 0 only reports the start
  under PM2.  Whatever the outcome, no line is logged as an error and \<open>process.exit\<close> is
  not called.
\<close>

theorem start_prefers_pm2:
  assumes valid: "validateMandatoryConfig w = []"
  shows "(\<exists>rest. added w (snd (start_action port outcome w)) = pm2_start_call port w # rest)
       \<and> (went_native (added w (snd (start_action port outcome w))) \<longleftrightarrow> pm2_failed outcome)
       \<and> (\<forall>evs. fell_back (added w (snd (start_action port (Emits evs) w)))
                  \<longleftrightarrow> list_ex failure evs)
       \<and> start_action port (Emits [ChildClose (Some 0)]) w
           = (Returned, logger Success ''Server started in background using PM2''
                          (emit (pm2_start_call port w) w))
       \<and> (\<forall>e. start_action port (Emits [ChildError e]) w
                = startNativeBackground port
                    (logger Info ''PM2 not found, falling back to native background process...''
                       (emit (pm2_start_call port w) w)))
       \<and> (\<forall>code. code \<noteq> Some 0 \<longrightarrow>
              start_action port (Emits [ChildClose code]) w
                = startNativeBackground port
                    (logger Warn ''PM2 start failed, falling back to native background process...''
                       (emit (pm2_start_call port w) w)))
       \<and> (\<forall>m. Log Error m \<notin> set (added w (snd (start_action port outcome w))))
       \<and> (\<forall>n. fst (start_action port outcome w) \<noteq> Exited n)"
proof -
  from start_action_trace [OF valid, of port outcome] obtain t where
    t: "added w (snd (start_action port outcome w)) = pm2_start_call port w # t"
      "\<forall>n. fst (start_action port outcome w) \<noteq> Exited n" "\<forall>m. Log Error m \<notin> set t"
      "fell_back t \<longleftrightarrow> child_failed outcome" "list_ex native_mark t \<longleftrightarrow> pm2_failed outcome"
    by blast
  have first: "\<exists>rest. added w (snd (start_action port outcome w)) = pm2_start_call port w # rest"
    using t(1) by blast
  have native: "went_native (added w (snd (start_action port outcome w))) \<longleftrightarrow> pm2_failed outcome"
    using t(5) by (simp add: t(1) went_native_def pm2_start_call_def)
  have announced: "fell_back (added w (snd (start_action port (Emits evs) w)))
                  \<longleftrightarrow> list_ex failure evs" for evs
  proof -
    from start_action_trace [OF valid, of port "Emits evs"] obtain t' where
      "added w (snd (start_action port (Emits evs) w)) = pm2_start_call port w # t'"
      "fell_back t' \<longleftrightarrow> child_failed (Emits evs)"
      by blast
    then show ?thesis
      by (simp add: pm2_start_call_def child_failed_def)
  qed
  have noerr: "\<forall>m. Log Error m \<notin> set (added w (snd (start_action port outcome w)))"
    using t(1) t(3) by (simp add: pm2_start_call_def)
  have single: "start_action port (Emits [ev]) w
      = start_on_event port ev (emit (pm2_start_call port w) w)" for ev
    by (simp add: valid_start [OF valid])
  show ?thesis
    using first native announced noerr t(2)
    by (simp add: single start_on_event_def valid_start [OF valid])
qed

theorem start_prefers_pm2_witness:
  "went_native (added configured (snd (start_action None (Emits [ChildClose (Some 1)]) configured)))
   \<and> fell_back (added configured (snd (start_action None (Emits [ChildClose (Some 1)]) configured)))
   \<and> \<not> went_native (added configured (snd (start_action None (Emits [ChildClose (Some 0)]) configured)))
   \<and> \<not> fell_back (added configured (snd (start_action None (Emits [ChildClose (Some 0)]) configured)))
   \<and> went_native (added configured (snd (start_action None (SpawnThrows (Exn ''E2BIG'' ''spawn E2BIG'')) configured)))
   \<and> fst (start_action None (Emits [ChildClose (Some 1)]) configured) \<noteq> Exited 1
   \<and> start_action None (Emits [ChildClose (Some 0)]) configured
       = (Returned, logger Success ''Server started in background using PM2''
                      (emit (pm2_start_call None configured) configured))"
proof -
  note T = start_prefers_pm2 [OF valid_configured, of None]
  have a: "went_native (added configured (snd (start_action None outcome configured)))
      \<longleftrightarrow> pm2_failed outcome" for outcome
    using T [of outcome] by blast
  have b: "fell_back (added configured (snd (start_action None (Emits evs) configured)))
      \<longleftrightarrow> list_ex failure evs" for evs
    using T [of "Emits evs"] by blast
  have c: "fst (start_action None (Emits [ChildClose (Some 1)]) configured) \<noteq> Exited 1"
    using T [of "Emits [ChildClose (Some 1)]"] by blast
  have d: "start_action None (Emits [ChildClose (Some 0)]) configured
       = (Returned, logger Success ''Server started in background using PM2''
                      (emit (pm2_start_call None configured) configured))"
    using T [of "Emits []"] by blast
  show ?thesis
    unfolding a b using c d by (simp add: pm2_failed_def failure_def)
qed

text \<open>
  The claim as it was stated, that \<open>start\<close> falls back exactly when the subprocess
  errors or exits with a code other than 0, and that the fallback is reported as an
  informational recovery: when the \<open>spawn\<close> call itself throws (the environment is too
  large for the operating system, say) there is no subprocess, the \<open>catch\<close> block runs
  the native path, a server is started, and no line reports the fallback.
\<close>

theorem start_silent_fallback_counterexample:
  "validateMandatoryConfig configured = []
   \<and> fst (start_action None (SpawnThrows (Exn ''E2BIG'' ''spawn E2BIG'')) configured) = Returned
   \<and> daemons configured = []
   \<and> daemons (snd (start_action None (SpawnThrows (Exn ''E2BIG'' ''spawn E2BIG'')) configured)) = [4242]
   \<and> added configured (snd (start_action None (SpawnThrows (Exn ''E2BIG'' ''spawn E2BIG'')) configured))
       = [pm2_start_call None configured,
          Spawn ''/usr/bin/node'' [''/usr/lib/node_modules/redep/bin/index.js'', ''listen''] None True,
          Persist ''server_pid'' (JNum 4242),
          Persist ''_meta.server_pid'' (JObj [(''updatedAt'', JStr ''2026-01-22T14:28:14.000Z'')]),
          Log Success ''Server started in background (native) with PID 4242'']
   \<and> \<not> fell_back (added configured (snd (start_action None (SpawnThrows (Exn ''E2BIG'' ''spawn E2BIG'')) configured)))"
proof -
  let ?w1 = "emit (pm2_start_call None configured) configured"
  have u: "\<not> truthy (getConfig ''server_pid'' ?w1)"
    by (simp add: pid_configured)
  have os: "os_pids ?w1 = Some 4242 # []"
    by (simp add: world_defs)
  have r: "start_action None (SpawnThrows (Exn ''E2BIG'' ''spawn E2BIG'')) configured
      = spawn_and_persist None ?w1"
    by (simp add: valid_start [OF valid_configured] start_unrecorded [OF u])
  have f: "argv0 configured = ''/usr/bin/node''"
    "argv1 configured = ''/usr/lib/node_modules/redep/bin/index.js''"
    "stamp configured = JObj [(''updatedAt'', JStr ''2026-01-22T14:28:14.000Z'')]"
    "procs configured = [(1, Proc Other Another), (412, Proc Other Self)]"
    by (simp_all add: world_defs stamp_def)
  note s = spawn_and_persist_started [OF os, of None]
  have a: "added configured (snd (start_action None (SpawnThrows (Exn ''E2BIG'' ''spawn E2BIG'')) configured))
       = [pm2_start_call None configured,
          Spawn ''/usr/bin/node'' [''/usr/lib/node_modules/redep/bin/index.js'', ''listen''] None True,
          Persist ''server_pid'' (JNum 4242),
          Persist ''_meta.server_pid'' (JObj [(''updatedAt'', JStr ''2026-01-22T14:28:14.000Z'')]),
          Log Success ''Server started in background (native) with PID 4242'']"
    by (simp add: r s added_def f shown_ids listen_args_def port_given_def)
  have b: "\<not> fell_back (added configured (snd (start_action None (SpawnThrows (Exn ''E2BIG'' ''spawn E2BIG'')) configured)))"
    unfolding a by (simp add: fell_back_def pm2_start_call_def)
  have c: "daemons (snd (start_action None (SpawnThrows (Exn ''E2BIG'' ''spawn E2BIG'')) configured)) = [4242]"
    by (simp add: r s daemons_def f)
  have d: "daemons configured = []"
    by (simp add: daemons_def f)
  have e: "fst (start_action None (SpawnThrows (Exn ''E2BIG'' ''spawn E2BIG'')) configured) = Returned"
    by (simp add: r s)
  show ?thesis
    using valid_configured a b c d e by blast
qed

section \<open>The deploy command and a profile that is not configured\<close>

lemma unknown_target:
  assumes "or_else (getConfig ''servers'' w) (Some (JObj [])) = Some (JObj kvs)"
    and "serverName \<notin> set (map fst kvs)" and "serverName \<notin> set object_prototype"
  shows "target serverName w = (fallback_url w, fallback_secret w)"
proof -
  have "map_of kvs serverName = None"
    using assms(2) by (simp add: map_of_eq_None_iff)
  with assms(1,3) show ?thesis
    by (simp add: target_def)
qed

lemma inherited_target:
  assumes "or_else (getConfig ''servers'' w) (Some (JObj [])) = Some (JObj kvs)"
    and "serverName \<notin> set (map fst kvs)" and "serverName \<in> set object_prototype"
  shows "target serverName w = (None, None)"
proof -
  have "map_of kvs serverName = None"
    using assms(2) by (simp add: map_of_eq_None_iff)
  with assms(1,3) show ?thesis
    by (simp add: target_def)
qed

lemma servers_remote: "or_else (getConfig ''servers'' remote) (Some (JObj [])) = Some (JObj [])"
  by (simp add: or_else_def eval_defs world_defs remote_def)

lemma servers_configured: "or_else (getConfig ''servers'' configured) (Some (JObj [])) = Some (JObj [])"
  by (simp add: or_else_def eval_defs world_defs)

lemma remote_fallback:
  "unknown_profile ''constructor'' remote"
  "fallback_url remote = Some (JStr ''http://10.0.0.5:3000'')"
  "fallback_secret remote = Some (JStr ''s3cret'')"
  by (simp_all add: unknown_profile_def fallback_url_def fallback_secret_def or_else_def
      eval_defs world_defs remote_def)

lemma configured_fallback: "fallback_url configured = None"
  by (simp add: fallback_url_def or_else_def eval_defs world_defs)

text \<open>
  When the profile map is an object (or is not set) and the name is neither one of its
  keys nor a name that every object inherits, \<open>deploy\<close> takes the global \<open>server_url\<close>
  and \<open>secret_key\<close>, environment first: with one of the two unset it exits with code 1
  and the trigger is not called; with both set it calls the trigger with them.
\<close>

lemma deploy_falls_back:
  assumes "or_else (getConfig ''servers'' w) (Some (JObj [])) = Some (JObj kvs)"
    and "serverName \<notin> set (map fst kvs)" and "serverName \<notin> set object_prototype"
  shows "(\<not> truthy (fallback_url w) \<or> \<not> truthy (fallback_secret w) \<longrightarrow>
            fst (deploy_action deploy serverName w) = Exited 1
            \<and> (\<forall>u s. Trigger serverName u s \<notin> set (added w (snd (deploy_action deploy serverName w)))))
       \<and> (truthy (fallback_url w) \<and> truthy (fallback_secret w) \<longrightarrow>
            deploy_action deploy serverName w =
              (case deploy serverName (fallback_url w) (fallback_secret w) of
                 None \<Rightarrow> (Returned, emit (Trigger serverName (fallback_url w) (fallback_secret w)) w)
               | Some error \<Rightarrow>
                   (Exited 1,
                    logger Error (''Deploy failed: '' @ exn_message error)
                      (emit (Trigger serverName (fallback_url w) (fallback_secret w)) w))))"
  by (simp add: deploy_action_def unknown_target [OF assms] added_def Let_def)

text \<open>
  C9.  The claim at the name \<open>constructor\<close>, on a host whose profile map is empty and
  whose global \<open>server_url\<close> (from the environment) and \<open>secret_key\<close> are both set.  The
  name is no key of the map, so by the claim the client falls back to the two global
  values and calls the trigger with them.  The program tests \<open>servers[serverName]\<close>,
  which under this name is the function every object inherits: the test succeeds, the
  address and the secret are read from that function and are \<open>undefined\<close>, and the
  client exits with code 1 without calling the trigger, reporting that the global
  \<open>server_url\<close> is not set.
\<close>

theorem deploy_inherited_name_exits:
  "unknown_profile ''constructor'' remote
   \<and> truthy (fallback_url remote) \<and> truthy (fallback_secret remote)
   \<and> target ''constructor'' remote = (None, None)
   \<and> deploy_action (\<lambda>n u s. None) ''constructor'' remote =
       (Exited 1,
        logger Info (''Run '' @ dq @ ''redep init client'' @ dq @ '' to configure a server.'')
          (logger Error
             (''Error: Server '' @ dq @ ''constructor'' @ dq @ '' not found in config, and global ''
              @ dq @ ''server_url'' @ dq @ '' is not set.'') remote))
   \<and> added remote (snd (deploy_action (\<lambda>n u s. None) ''constructor'' remote)) =
       [Log Error
          (''Error: Server '' @ dq @ ''constructor'' @ dq @ '' not found in config, and global ''
           @ dq @ ''server_url'' @ dq @ '' is not set.''),
        Log Info (''Run '' @ dq @ ''redep init client'' @ dq @ '' to configure a server.'')]"
proof -
  have t: "target ''constructor'' remote = (None, None)"
    by (rule inherited_target [OF servers_remote]) (simp_all add: object_prototype_def)
  show ?thesis
    by (simp add: remote_fallback t deploy_action_def added_def)
qed

section \<open>Secrets in the listing of the client profiles\<close>

lemma client_row_secret: "client_row k p = Inr r \<Longrightarrow> secret_key r = masked p"
  by (auto simp: client_row_def masked_def split: if_splits sum.splits)

lemma client_rows_secrets:
  "client_rows es acc = Inr rows \<Longrightarrow> map secret_key rows = map secret_key acc @ map (\<lambda>e. masked (snd e)) es"
proof (induction es arbitrary: acc)
  case Nil
  then show ?case by simp
next
  case (Cons e es)
  obtain k p where e: "e = (k, p)" by (cases e)
  from Cons.prems e obtain r where r: "client_row k p = Inr r" and rest: "client_rows es (acc @ [r]) = Inr rows"
    by (auto split: sum.splits)
  from Cons.IH [OF rest] client_row_secret [OF r] e show ?case
    by simp
qed

lemma getClientConfig_profiles: "getClientConfig w = client_rows (profiles w) []"
  by (simp add: getClientConfig_def profiles_def split: option.splits)

lemma swapped_row:
  assumes "secret_swapped p p'" "truthy (get_prop p ''secret'') = truthy (get_prop p' ''secret'')"
  shows "client_row k p = client_row k p'"
proof -
  from assms(1) obtain a b s s' where ab: "p = JObj a" "p' = JObj b"
    and b: "b = obj_put a ''secret'' (JStr s')"
    by (cases p; cases p') (auto split: option.splits json.splits)
  have "get_prop p' ''url'' = get_prop p ''url''"
    by (simp add: ab b map_of_obj_put)
  with assms(2) ab show ?thesis
    by (simp add: client_row_def cong: sum.case_cong)
qed

lemma alike_rows:
  assumes "differ_in_secrets_only es es'" "same_secrets_set es es'"
  shows "client_rows es acc = client_rows es' acc"
  using assms
proof (induction es arbitrary: es' acc)
  case Nil
  then show ?case by (simp add: differ_in_secrets_only_def)
next
  case (Cons e es)
  from Cons.prems(1) obtain e' rest where es': "es' = e' # rest"
    and hd: "fst e = fst e'" "snd e = snd e' \<or> secret_swapped (snd e) (snd e')"
    and tl: "differ_in_secrets_only es rest"
    by (auto simp: differ_in_secrets_only_def list_all2_Cons1)
  from Cons.prems(2) es' have set: "truthy (get_prop (snd e) ''secret'') = truthy (get_prop (snd e') ''secret'')"
    and tl2: "same_secrets_set es rest"
    by (auto simp: same_secrets_set_def)
  have row: "client_row (fst e) (snd e) = client_row (fst e') (snd e')"
    using hd set swapped_row by auto
  obtain k p where e: "e = (k, p)" by (cases e)
  obtain k' p' where e': "e' = (k', p')" by (cases e')
  show ?case
    using row Cons.IH [OF tl tl2] by (simp add: es' e e' split: sum.splits)
qed

lemma servers_client_of: "config_get ''servers'' (client_of kvs) = Some (JObj kvs)"
  by (simp add: config_get_def client_of_def path_of_def disallowed_def)

text \<open>
  C10 (amended).  Whenever \<open>getClientConfig\<close> returns rows, the \<open>secret_key\<close> field of
  each row is \<open>********\<close> when the profile's secret is truthy and \<open>Not set\<close> otherwise,
  and nothing else.  Two stores whose profile maps have the same names in the same order
  and differ only in the strings of their secrets give the same output, provided each
  profile has a secret set in both stores or in neither: whether a secret is set stays
  visible, its value does not.
\<close>

theorem getClientConfig_masks_secrets:
  "(\<forall>rows. getClientConfig w = Inr rows \<longrightarrow>
       map secret_key rows = map (\<lambda>e. masked (snd e)) (profiles w)
       \<and> list_all (\<lambda>r. secret_key r = ''********'' \<or> secret_key r = ''Not set'') rows)
   \<and> (\<forall>w' kvs kvs'.
         config_get ''servers'' w = Some (JObj kvs) \<and> config_get ''servers'' w' = Some (JObj kvs')
         \<and> differ_in_secrets_only kvs kvs' \<and> same_secrets_set kvs kvs'
         \<longrightarrow> getClientConfig w = getClientConfig w')"
proof (intro conjI allI impI)
  fix rows
  assume "getClientConfig w = Inr rows"
  then have "client_rows (profiles w) [] = Inr rows"
    by (simp add: getClientConfig_profiles)
  from client_rows_secrets [OF this]
  show m: "map secret_key rows = map (\<lambda>e. masked (snd e)) (profiles w)"
    by simp
  have "\<forall>s \<in> set (map secret_key rows). s = ''********'' \<or> s = ''Not set''"
    unfolding m by (auto simp: masked_def)
  then show "list_all (\<lambda>r. secret_key r = ''********'' \<or> secret_key r = ''Not set'') rows"
    by (simp add: list_all_iff)
next
  fix w' kvs kvs'
  assume h: "config_get ''servers'' w = Some (JObj kvs) \<and> config_get ''servers'' w' = Some (JObj kvs')
         \<and> differ_in_secrets_only kvs kvs' \<and> same_secrets_set kvs kvs'"
  then have "profiles w = kvs" "profiles w' = kvs'"
    by (simp_all add: profiles_def or_else_def)
  with h alike_rows [of kvs kvs' "[]"] show "getClientConfig w = getClientConfig w'"
    by (simp add: getClientConfig_profiles)
qed

theorem getClientConfig_masks_secrets_witness:
  "getClientConfig (client_of (dev_profile ''hunter2'')) = getClientConfig (client_of (dev_profile ''s3cret''))
   \<and> (\<exists>rows. getClientConfig (client_of (dev_profile ''hunter2'')) = Inr rows
        \<and> map secret_key rows = [''********''])"
proof -
  let ?w = "client_of (dev_profile ''hunter2'')"
  have d: "differ_in_secrets_only (dev_profile ''hunter2'') (dev_profile ''s3cret'')"
    "same_secrets_set (dev_profile ''hunter2'') (dev_profile ''s3cret'')"
    by (simp_all add: differ_in_secrets_only_def same_secrets_set_def dev_profile_def)
  have h: "config_get ''servers'' ?w = Some (JObj (dev_profile ''hunter2''))
      \<and> config_get ''servers'' (client_of (dev_profile ''s3cret'')) = Some (JObj (dev_profile ''s3cret''))
      \<and> differ_in_secrets_only (dev_profile ''hunter2'') (dev_profile ''s3cret'')
      \<and> same_secrets_set (dev_profile ''hunter2'') (dev_profile ''s3cret'')"
    by (simp add: servers_client_of d)
  have a: "getClientConfig ?w = getClientConfig (client_of (dev_profile ''s3cret''))"
    by (rule getClientConfig_masks_secrets [of ?w, THEN conjunct2, rule_format, OF h])
  obtain rows where rows: "getClientConfig ?w = Inr rows"
    by (simp add: getClientConfig_def servers_client_of or_else_def dev_profile_def client_row_def
        getServerSecurityLevel_def)
  have "map secret_key rows = map (\<lambda>e. masked (snd e)) (profiles ?w)"
    using getClientConfig_masks_secrets [of ?w, THEN conjunct1, rule_format, OF rows] by simp
  then have m: "map secret_key rows = [''********'']"
    by (simp add: profiles_def servers_client_of or_else_def dev_profile_def masked_def)
  show ?thesis
    by (intro conjI exI [of _ rows]) (rule a, rule rows, rule m)
qed

text \<open>
  The claim as it was stated, for any two stores that differ only in secret strings: a
  profile whose secret is the empty string is listed as \<open>Not set\<close>, the same profile with
  another secret as \<open>********\<close>.
\<close>

theorem getClientConfig_empty_secret_counterexample:
  "differ_in_secrets_only (dev_profile '''') (dev_profile ''hunter2'')
   \<and> getClientConfig (client_of (dev_profile '''')) \<noteq> getClientConfig (client_of (dev_profile ''hunter2''))"
  by (simp add: differ_in_secrets_only_def dev_profile_def getClientConfig_def servers_client_of
      or_else_def client_row_def getServerSecurityLevel_def)

section \<open>Authentication of a trigger\<close>







section \<open>Exit codes of the commands\<close>

lemma validate_nonempty:
  "validateMandatoryConfig w \<noteq> [] \<longleftrightarrow> (\<exists>k \<in> set mandatory. \<not> truthy (getConfig k w))"
proof -
  have "validateMandatoryConfig w \<noteq> [] \<longleftrightarrow> set (validateMandatoryConfig w) \<noteq> {}"
    by simp
  also have "\<dots> \<longleftrightarrow> (\<exists>k \<in> set mandatory. \<not> truthy (getConfig k w))"
    unfolding validate_set by blast
  finally show ?thesis .
qed

lemma invalid_start:
  assumes "validateMandatoryConfig w \<noteq> []"
  shows "start_action port outcome w
      = (Exited 1, logger Error (message_text (getMissingConfigMessage (validateMandatoryConfig w))) w)"
    and "listen_action port w
      = (Exited 1, logger Error (message_text (getMissingConfigMessage (validateMandatoryConfig w))) w)"
  using assms by (simp_all add: start_action_def listen_action_def Let_def)

lemma valid_listen:
  assumes "validateMandatoryConfig w = []"
  shows "fst (listen_action port w) = Returned"
    and "\<exists>p s d c. added w (snd (listen_action port w)) = [Serve p s d c]"
  using assms by (simp_all add: listen_action_def Let_def added_def)

lemma refusal_emit [simp]: "refusal key (emit e w) = refusal key w"
  by (simp add: refusal_def emit_def)

lemma refusal_store [simp]: "refusal key (w\<lparr>store := s\<rparr>) = refusal key w"
  by (simp add: refusal_def)

lemma setConfig_accepted:
  "(\<exists>w'. setConfig key (Some v) w = Inr w') \<longleftrightarrow> accepted key w"
proof -
  have meta: "\<not> prefix ''__internal__.'' (''_meta.'' @ key)"
    by (simp add: prefix_def)
  show ?thesis
  proof (cases "config_set key (Some v) w")
    case (Inl e)
    then have "\<not> accepted key w"
      by (auto simp: config_set_def accepted_def split: if_splits option.splits)
    with Inl show ?thesis
      by (simp add: setConfig_def)
  next
    case (Inr w1)
    then have first: "\<not> prefix ''__internal__.'' key" "refusal key w = None"
      and w1: "w1 = emit (Persist key v) (w\<lparr>store := set_path (path_of key) v (store w)\<rparr>)"
      by (auto simp: config_set_def split: if_splits option.splits)
    have r: "refusal (''_meta.'' @ key) w1 = refusal (''_meta.'' @ key) w"
      by (simp only: w1 refusal_emit refusal_store)
    show ?thesis
    proof (cases "refusal (''_meta.'' @ key) w")
      case None
      with r meta have "\<exists>w2. config_set (''_meta.'' @ key) (Some u) w1 = Inr w2" for u
        unfolding config_set_def by (simp only: option.case if_False) blast
      then obtain w2 where
        "config_set (''_meta.'' @ key) (Some (JObj [(''updatedAt'', JStr (clock w1))])) w1 = Inr w2"
        by blast
      with Inr first None show ?thesis
        by (simp add: setConfig_def accepted_def)
    next
      case (Some e)
      with r meta have "config_set (''_meta.'' @ key) (Some u) w1 = Inl e" for u
        unfolding config_set_def by (simp only: option.case if_False)
      with Inr Some show ?thesis
        by (simp add: setConfig_def accepted_def)
    qed
  qed
qed

lemma init_status:
  "fst (init_action type prompt w) = Returned
   \<or> (fst (init_action type prompt w) = Exited 1
       \<and> (\<exists>msg. last (trace (snd (init_action type prompt w))) = Log Error msg))"
proof (cases "type \<noteq> ''client'' \<and> type \<noteq> ''server''")
  case True
  then show ?thesis
    by (simp add: init_action_def)
next
  case False
  show ?thesis
  proof (cases "if type = ''client'' then init_client prompt w else init_server prompt w")
    case (Inl x)
    obtain e w' where "x = (e, w')" by (cases x)
    with Inl False show ?thesis
      by (simp add: init_action_def)
  next
    case (Inr w')
    with False show ?thesis
      by (simp add: init_action_def)
  qed
qed

lemma init_rejected:
  assumes "type = ''client'' \<or> type = ''server''"
  shows "init_action type (Inl e) w = (Exited 1, logger Error (''Initialization failed: '' @ exn_message e) w)"
  using assms by (auto simp: init_action_def init_client_def init_server_def)

lemma stop_status_return:
  "fst (status_action (Emits [ChildClose code]) w) = Returned"
  "fst (stop_action (Emits [ChildClose code]) w) = Returned"
proof -
  show "fst (status_action (Emits [ChildClose code]) w) = Returned"
    by (simp add: status_action_def status_on_event_def Let_def set_pid split: sum.splits)
  show "fst (stop_action (Emits [ChildClose code]) w) = Returned"
    by (simp add: stop_action_def stop_on_event_def Let_def set_pid split: sum.splits)
qed

lemma generate_return:
  "fst (generate_secret_key w) = Returned" "fst (generate_working_dir w) = Returned"
  by (auto simp: generate_secret_key_def generate_working_dir_def split: sum.splits)

lemma config_set_status:
  "fst (config_set_action key value w) = Returned \<longleftrightarrow> accepted key w"
  "\<not> accepted key w \<Longrightarrow> \<exists>e. fst (config_set_action key value w) = Uncaught e"
proof -
  show "fst (config_set_action key value w) = Returned \<longleftrightarrow> accepted key w"
    using setConfig_accepted [of key "JStr value" w]
    by (cases "setConfig key (Some (JStr value)) w") (auto simp: config_set_action_def)
  show "\<not> accepted key w \<Longrightarrow> \<exists>e. fst (config_set_action key value w) = Uncaught e"
    using setConfig_accepted [of key "JStr value" w]
    by (cases "setConfig key (Some (JStr value)) w") (auto simp: config_set_action_def)
qed

lemma config_get_status:
  "fst (config_get_action key w) = Returned \<longleftrightarrow> refusal key w = None"
  "refusal key w \<noteq> None \<Longrightarrow> \<exists>e. fst (config_get_action key w) = Uncaught e"
  by (auto simp: config_get_action_def split: option.splits)

lemma config_list_status:
  "fst (config_list_action pr type json sortBy w) = Returned
   \<or> (\<exists>e. fst (config_list_action pr type json sortBy w) = Uncaught e)"
  by (auto simp: config_list_action_def list_client_def list_server_def list_all_settings_def Let_def
      split: sum.splits)

lemma targets:
  "target ''prod'' remote = (Some (JStr ''http://10.0.0.5:3000''), Some (JStr ''s3cret''))"
  "fst (target ''prod'' configured) = None"
  "fst (target ''constructor'' remote) = None"
proof -
  have p: "''prod'' \<notin> set object_prototype"
    by (simp add: object_prototype_def)
  show "target ''prod'' remote = (Some (JStr ''http://10.0.0.5:3000''), Some (JStr ''s3cret''))"
    using unknown_target [OF servers_remote _ p] by (simp add: remote_fallback)
  show "fst (target ''prod'' configured) = None"
    using unknown_target [OF servers_configured _ p] by (simp add: configured_fallback)
  show "fst (target ''constructor'' remote) = None"
    using inherited_target [OF servers_remote, of "''constructor''"] by (simp add: object_prototype_def)
qed

text \<open>
  C8.  The failure paths end with exit code 1 after an error line: \<open>start\<close> and
  \<open>listen\<close> with a mandatory setting missing, \<open>init\<close> with a type other than \<open>client\<close>
  or \<open>server\<close> or with a rejected prompt (whenever \<open>init\<close> does not return, the code is
  1 and the last line is an error line), and \<open>deploy\<close> with no address, with no secret
  or with a rejected trigger.  On success the commands return, which is exit code 0:
  \<open>start\<close> under PM2, \<open>init\<close>, \<open>deploy\<close> after a trigger that resolves, \<open>status\<close>
  and \<open>stop\<close> after the \<open>'close'\<close> of their \<open>pm2\<close> child, \<open>generate\<close>,
  \<open>config clear\<close>, \<open>config set\<close> with a key that the store takes and \<open>config get\<close>
  with a key that it reads; \<open>listen\<close> with the configuration complete hands over to
  \<open>startServer\<close> and does not exit.  The commands without a failure exit of their own
  never call \<open>process.exit\<close>: \<open>start\<close> with the configuration complete, \<open>config set\<close>
  and \<open>config get\<close> with a key that the store refuses, and \<open>config list\<close> either
  return or die of an uncaught exception, which is exit code 1.
\<close>

theorem cli_exit_codes:
  "((\<exists>k \<in> set mandatory. \<not> truthy (getConfig k w)) \<longrightarrow>
      exit_code (fst (start_action port outcome w)) = 1
      \<and> exit_code (fst (listen_action port w)) = 1
      \<and> (\<exists>msg. added w (snd (start_action port outcome w)) = [Log Error msg]
               \<and> added w (snd (listen_action port w)) = [Log Error msg]))
   \<and> (validateMandatoryConfig w = [] \<longrightarrow>
        fst (listen_action port w) = Returned
        \<and> (\<exists>p s d c. added w (snd (listen_action port w)) = [Serve p s d c])
        \<and> exit_code (fst (start_action port (Emits [ChildClose (Some 0)]) w)) = 0
        \<and> (fst (start_action port outcome w) = Returned
            \<or> (\<exists>e. fst (start_action port outcome w) = Uncaught e)))
   \<and> (type \<noteq> ''client'' \<and> type \<noteq> ''server'' \<longrightarrow>
        init_action type prompt w =
          (Exited 1,
           logger Error (''Type must be either '' @ dq @ ''client'' @ dq @ '' or '' @ dq @ ''server'' @ dq) w))
   \<and> (type = ''client'' \<or> type = ''server'' \<longrightarrow>
        (\<forall>e. init_action type (Inl e) w
               = (Exited 1, logger Error (''Initialization failed: '' @ exn_message e) w)))
   \<and> (exit_code (fst (init_action type prompt w)) = 0
        \<or> (exit_code (fst (init_action type prompt w)) = 1
            \<and> (\<exists>msg. last (trace (snd (init_action type prompt w))) = Log Error msg)))
   \<and> (\<not> truthy (fst (target serverName w)) \<or> \<not> truthy (snd (target serverName w)) \<longrightarrow>
        exit_code (fst (deploy_action deploy serverName w)) = 1
        \<and> (\<exists>msg. Log Error msg \<in> set (added w (snd (deploy_action deploy serverName w)))))
   \<and> (truthy (fst (target serverName w)) \<and> truthy (snd (target serverName w)) \<longrightarrow>
        (\<forall>e. deploy serverName (fst (target serverName w)) (snd (target serverName w)) = Some e \<longrightarrow>
               deploy_action deploy serverName w =
                 (Exited 1,
                  logger Error (''Deploy failed: '' @ exn_message e)
                    (emit (Trigger serverName (fst (target serverName w)) (snd (target serverName w))) w)))
        \<and> (deploy serverName (fst (target serverName w)) (snd (target serverName w)) = None \<longrightarrow>
               exit_code (fst (deploy_action deploy serverName w)) = 0))
   \<and> exit_code (fst (status_action (Emits [ChildClose code]) w)) = 0
   \<and> exit_code (fst (stop_action (Emits [ChildClose code]) w)) = 0
   \<and> exit_code (fst (generate_secret_key w)) = 0
   \<and> exit_code (fst (generate_working_dir w)) = 0
   \<and> exit_code (fst (config_clear_action w)) = 0
   \<and> (accepted key w \<longrightarrow> exit_code (fst (config_set_action key v w)) = 0)
   \<and> (\<not> accepted key w \<longrightarrow>
        (\<exists>e. fst (config_set_action key v w) = Uncaught e)
        \<and> exit_code (fst (config_set_action key v w)) = 1)
   \<and> (refusal key w = None \<longrightarrow> exit_code (fst (config_get_action key w)) = 0)
   \<and> (refusal key w \<noteq> None \<longrightarrow>
        (\<exists>e. fst (config_get_action key w) = Uncaught e)
        \<and> exit_code (fst (config_get_action key w)) = 1)
   \<and> (fst (config_list_action pr listed json sortBy w) = Returned
        \<or> (\<exists>e. fst (config_list_action pr listed json sortBy w) = Uncaught e))
   \<and> (listed = Some ''server'' \<and> json \<longrightarrow>
        config_list_action pr listed json sortBy w
          = (Returned, console_log (pr_items pr (getServerConfig w)) w))"
proof -
  have s1: "(\<exists>k \<in> set mandatory. \<not> truthy (getConfig k w)) \<longrightarrow>
      exit_code (fst (start_action port outcome w)) = 1
      \<and> exit_code (fst (listen_action port w)) = 1
      \<and> (\<exists>msg. added w (snd (start_action port outcome w)) = [Log Error msg]
               \<and> added w (snd (listen_action port w)) = [Log Error msg])"
  proof
    assume "\<exists>k \<in> set mandatory. \<not> truthy (getConfig k w)"
    then have "validateMandatoryConfig w \<noteq> []"
      by (simp add: validate_nonempty)
    from invalid_start [OF this]
    show "exit_code (fst (start_action port outcome w)) = 1
      \<and> exit_code (fst (listen_action port w)) = 1
      \<and> (\<exists>msg. added w (snd (start_action port outcome w)) = [Log Error msg]
               \<and> added w (snd (listen_action port w)) = [Log Error msg])"
      by (simp add: added_logger)
  qed
  have s2: "validateMandatoryConfig w = [] \<longrightarrow>
        fst (listen_action port w) = Returned
        \<and> (\<exists>p s d c. added w (snd (listen_action port w)) = [Serve p s d c])
        \<and> exit_code (fst (start_action port (Emits [ChildClose (Some 0)]) w)) = 0
        \<and> (fst (start_action port outcome w) = Returned
            \<or> (\<exists>e. fst (start_action port outcome w) = Uncaught e))"
  proof
    assume valid: "validateMandatoryConfig w = []"
    from start_action_trace [OF valid, of port outcome]
    have "\<forall>n. fst (start_action port outcome w) \<noteq> Exited n"
      by blast
    then have "fst (start_action port outcome w) = Returned
        \<or> (\<exists>e. fst (start_action port outcome w) = Uncaught e)"
      by (cases "fst (start_action port outcome w)") auto
    then show "fst (listen_action port w) = Returned
        \<and> (\<exists>p s d c. added w (snd (listen_action port w)) = [Serve p s d c])
        \<and> exit_code (fst (start_action port (Emits [ChildClose (Some 0)]) w)) = 0
        \<and> (fst (start_action port outcome w) = Returned
            \<or> (\<exists>e. fst (start_action port outcome w) = Uncaught e))"
      using valid valid_listen [OF valid, of port] by (simp add: valid_start start_on_event_def)
  qed
  have i1: "type \<noteq> ''client'' \<and> type \<noteq> ''server'' \<longrightarrow>
        init_action type prompt w =
          (Exited 1,
           logger Error (''Type must be either '' @ dq @ ''client'' @ dq @ '' or '' @ dq @ ''server'' @ dq) w)"
    by (simp add: init_action_def)
  have i2: "type = ''client'' \<or> type = ''server'' \<longrightarrow>
        (\<forall>e. init_action type (Inl e) w
               = (Exited 1, logger Error (''Initialization failed: '' @ exn_message e) w))"
    using init_rejected [of type _ w] by (intro impI allI)
  have i3: "exit_code (fst (init_action type prompt w)) = 0
        \<or> (exit_code (fst (init_action type prompt w)) = 1
            \<and> (\<exists>msg. last (trace (snd (init_action type prompt w))) = Log Error msg))"
    using init_status [of type prompt w] by auto
  obtain url secret where tg: "target serverName w = (url, secret)"
    by (cases "target serverName w")
  have d1: "\<not> truthy (fst (target serverName w)) \<or> \<not> truthy (snd (target serverName w)) \<longrightarrow>
        exit_code (fst (deploy_action deploy serverName w)) = 1
        \<and> (\<exists>msg. Log Error msg \<in> set (added w (snd (deploy_action deploy serverName w))))"
    by (auto simp: deploy_action_def tg added_def)
  have d2: "truthy (fst (target serverName w)) \<and> truthy (snd (target serverName w)) \<longrightarrow>
        (\<forall>e. deploy serverName (fst (target serverName w)) (snd (target serverName w)) = Some e \<longrightarrow>
               deploy_action deploy serverName w =
                 (Exited 1,
                  logger Error (''Deploy failed: '' @ exn_message e)
                    (emit (Trigger serverName (fst (target serverName w)) (snd (target serverName w))) w)))
        \<and> (deploy serverName (fst (target serverName w)) (snd (target serverName w)) = None \<longrightarrow>
               exit_code (fst (deploy_action deploy serverName w)) = 0)"
    by (simp add: deploy_action_def tg)
  have p1: "exit_code (fst (status_action (Emits [ChildClose code]) w)) = 0"
    and p2: "exit_code (fst (stop_action (Emits [ChildClose code]) w)) = 0"
    and p3: "exit_code (fst (generate_secret_key w)) = 0"
    and p4: "exit_code (fst (generate_working_dir w)) = 0"
    and p5: "exit_code (fst (config_clear_action w)) = 0"
    by (simp_all add: stop_status_return generate_return config_clear_action_def)
  have c1: "accepted key w \<longrightarrow> exit_code (fst (config_set_action key v w)) = 0"
    using config_set_status(1) [of key v w] by auto
  have c2: "\<not> accepted key w \<longrightarrow>
        (\<exists>e. fst (config_set_action key v w) = Uncaught e)
        \<and> exit_code (fst (config_set_action key v w)) = 1"
    using config_set_status(2) [of key w v] by auto
  have g1: "refusal key w = None \<longrightarrow> exit_code (fst (config_get_action key w)) = 0"
    using config_get_status(1) [of key w] by auto
  have g2: "refusal key w \<noteq> None \<longrightarrow>
        (\<exists>e. fst (config_get_action key w) = Uncaught e)
        \<and> exit_code (fst (config_get_action key w)) = 1"
    using config_get_status(2) [of key w] by auto
  have l1: "fst (config_list_action pr listed json sortBy w) = Returned
        \<or> (\<exists>e. fst (config_list_action pr listed json sortBy w) = Uncaught e)"
    by (rule config_list_status)
  have l2: "listed = Some ''server'' \<and> json \<longrightarrow>
        config_list_action pr listed json sortBy w
          = (Returned, console_log (pr_items pr (getServerConfig w)) w)"
    by (simp add: config_list_action_def list_server_def)
  show ?thesis
    by (intro conjI)
       (rule s1, rule s2, rule i1, rule i2, rule i3, rule d1, rule d2, rule p1, rule p2, rule p3,
        rule p4, rule p5, rule c1, rule c2, rule g1, rule g2, rule l1, rule l2)
qed

theorem cli_exit_codes_witness:
  "exit_code (fst (start_action None (Emits []) bare)) = 1
   \<and> fst (listen_action None configured) = Returned
   \<and> exit_code (fst (init_action ''both'' (Inr []) bare)) = 1
   \<and> exit_code (fst (init_action ''client'' (Inl (Exn ''ExitPromptError'' ''User force closed the prompt'')) bare)) = 1
   \<and> exit_code (fst (deploy_action (\<lambda>n u s. None) ''prod'' configured)) = 1
   \<and> exit_code (fst (deploy_action (\<lambda>n u s. Some (Exn ''ECONNREFUSED'' ''connect ECONNREFUSED'')) ''prod'' remote)) = 1
   \<and> exit_code (fst (deploy_action (\<lambda>n u s. None) ''prod'' remote)) = 0
   \<and> exit_code (fst (deploy_action (\<lambda>n u s. None) ''constructor'' remote)) = 1
   \<and> exit_code (fst (config_set_action ''secret_key'' ''s3cret'' bare)) = 0
   \<and> exit_code (fst (config_set_action ''__internal__.x'' ''v'' bare)) = 1
   \<and> exit_code (fst (config_get_action ''a['' indexed)) = 1
   \<and> fst (config_list_action plain (Some ''server'') True ''key'' configured) = Returned"
proof -
  have m: "\<exists>k \<in> set mandatory. \<not> truthy (getConfig k bare)"
    by (simp add: mandatory_def)
  have a: "exit_code (fst (start_action None (Emits []) bare)) = 1"
    using cli_exit_codes [where w = bare and port = None and outcome = "Emits []"] m by simp
  have b: "fst (listen_action None configured) = Returned"
    using cli_exit_codes [where w = configured and port = None] valid_configured by simp
  have c: "exit_code (fst (init_action ''both'' (Inr []) bare)) = 1"
    using cli_exit_codes [where w = bare and type = "''both''" and prompt = "Inr []"] by simp
  have c': "exit_code (fst (init_action ''client'' (Inl (Exn ''ExitPromptError'' ''User force closed the prompt'')) bare)) = 1"
    using cli_exit_codes [where w = bare and type = "''client''"] by simp
  have d: "exit_code (fst (deploy_action (\<lambda>n u s. None) ''prod'' configured)) = 1"
    using cli_exit_codes [where w = configured and serverName = "''prod''" and deploy = "\<lambda>n u s. None"]
      targets(2) by simp
  have e: "exit_code (fst (deploy_action (\<lambda>n u s. Some (Exn ''ECONNREFUSED'' ''connect ECONNREFUSED'')) ''prod'' remote)) = 1"
    using cli_exit_codes [where w = remote and serverName = "''prod''"
        and deploy = "\<lambda>n u s. Some (Exn ''ECONNREFUSED'' ''connect ECONNREFUSED'')"]
    by (simp add: targets)
  have f: "exit_code (fst (deploy_action (\<lambda>n u s. None) ''prod'' remote)) = 0"
    using cli_exit_codes [where w = remote and serverName = "''prod''" and deploy = "\<lambda>n u s. None"]
    by (simp add: targets)
  have g: "exit_code (fst (deploy_action (\<lambda>n u s. None) ''constructor'' remote)) = 1"
    using cli_exit_codes [where w = remote and serverName = "''constructor''" and deploy = "\<lambda>n u s. None"]
      targets(3) by simp
  have acc: "accepted ''secret_key'' bare" "\<not> accepted ''__internal__.x'' bare"
    by (simp_all add: accepted_def refusal_def special_def)
  have h: "exit_code (fst (config_set_action ''secret_key'' ''s3cret'' bare)) = 0"
    using cli_exit_codes [where w = bare and key = "''secret_key''" and v = "''s3cret''"] acc(1)
    by simp
  have i: "exit_code (fst (config_set_action ''__internal__.x'' ''v'' bare)) = 1"
    using cli_exit_codes [where w = bare and key = "''__internal__.x''" and v = "''v''"] acc(2)
    by simp
  have ref: "refusal ''a['' indexed \<noteq> None"
    by (simp add: refusal_def special_def indexed_def)
  have j: "exit_code (fst (config_get_action ''a['' indexed)) = 1"
    using cli_exit_codes [where w = indexed and key = "''a[''"] ref by simp
  have k: "fst (config_list_action plain (Some ''server'') True ''key'' configured) = Returned"
    using cli_exit_codes [where w = configured and pr = plain and listed = "Some ''server''"
        and json = True and sortBy = "''key''"]
    by simp
  show ?thesis
    using a b c c' d e f g h i j k by simp
qed

end
